theory Spec2Isabelle
  imports Complex_Main "HOL-Library.Char_ord" "HOL-Library.List_Lexorder"
begin

section \<open>Numbers\<close>

text \<open>
  A finite JavaScript number is a real that \<open>binary64\<close> below leaves unchanged (an IEEE 754
  double; \<open>-0\<close> is not told apart from \<open>0\<close>), and NaN is not a value of the model. Where
  the source only compares numbers, or adds and subtracts small integers, its arithmetic is
  exact and is written as plain arithmetic on \<^typ>\<open>real\<close>. Where an operation of the
  source can round (\<open>calculatePriceRange\<close>, the interpolating branch of
  \<open>interpolateLogPrice\<close>), the model applies \<open>binary64\<close> to the exact result of every
  single operation, as IEEE 754 prescribes.
  An object that the source uses as a string-keyed record is a map on its own keys; what
  it inherits from \<open>Object.prototype\<close> is not modelled.
\<close>

text \<open>Rounding to the nearest integer, a tie to the even one.\<close>

definition roundTiesToEven :: "real \<Rightarrow> int" where
  "roundTiesToEven x =
     (let f = \<lfloor>x\<rfloor>; d = x - of_int f
      in if d < 1 / 2 then f
         else if 1 / 2 < d then f + 1
         else if even f then f else f + 1)"

text \<open>
  The binary exponent of a real other than 0: the \<open>e\<close> with \<open>2^e \<le> |x| < 2^(e + 1)\<close>.
\<close>

function exponent2 :: "real \<Rightarrow> int" where
  "exponent2 x =
     (if x = 0 then 0
      else if 2 \<le> \<bar>x\<bar> then exponent2 (x / 2) + 1
      else if \<bar>x\<bar> < 1 then exponent2 (x * 2) - 1
      else 0)"
  by pat_completeness auto
termination
proof (relation "measure (\<lambda>x. nat \<bar>\<lfloor>log 2 \<bar>x\<bar>\<rfloor>\<bar>)")
  show "wf (measure (\<lambda>x. nat \<bar>\<lfloor>log 2 \<bar>x\<bar>\<rfloor>\<bar>))" by simp
next
  fix x :: real
  assume "x \<noteq> 0" "2 \<le> \<bar>x\<bar>"
  then have "log 2 \<bar>x / 2\<bar> = log 2 \<bar>x\<bar> - 1" by (simp add: log_divide)
  moreover have "1 \<le> log 2 \<bar>x\<bar>" using \<open>2 \<le> \<bar>x\<bar>\<close> by (simp add: le_log_iff)
  ultimately show "(x / 2, x) \<in> measure (\<lambda>x. nat \<bar>\<lfloor>log 2 \<bar>x\<bar>\<rfloor>\<bar>)"
    by simp
next
  fix x :: real
  assume "x \<noteq> 0" "\<not> 2 \<le> \<bar>x\<bar>" "\<bar>x\<bar> < 1"
  then have "log 2 \<bar>x * 2\<bar> = log 2 \<bar>x\<bar> + 1" by (simp add: log_mult abs_mult)
  moreover have "log 2 \<bar>x\<bar> < 0" using \<open>\<bar>x\<bar> < 1\<close> \<open>x \<noteq> 0\<close> by simp
  then have "\<lfloor>log 2 \<bar>x\<bar>\<rfloor> < 0" by simp
  ultimately show "(x * 2, x) \<in> measure (\<lambda>x. nat \<bar>\<lfloor>log 2 \<bar>x\<bar>\<rfloor>\<bar>)"
    by (simp; linarith)
qed

declare exponent2.simps [simp del]

text \<open>
  Rounding to binary64, to nearest with ties to even: 53 significant bits, and below
  \<open>2^-1022\<close> the fixed spacing \<open>2^-1074\<close> of the subnormal numbers. The exponent is not
  bounded above here; a JavaScript operation whose rounded result reaches \<open>2^1024\<close> in
  magnitude returns an infinity, which is what \<open>overflow64\<close> adds.
\<close>

definition binary64 :: "real \<Rightarrow> real" where
  "binary64 x =
     (let e = max (exponent2 x) (- 1022);
          ulp = 2 powi (e - 52)
      in of_int (roundTiesToEven (x / ulp)) * ulp)"



section \<open>Confidence and price range (pricingService.ts)\<close>



text \<open>
  The local \<open>spread\<close> of \<open>calculatePriceRange\<close>, as a function of the confidence
  (\<open>baseSpread + confidenceFactor * 0.10\<close>): \<open>rangeSpread64\<close> as the source computes it, each
  literal and each operation rounded to a double, and \<open>rangeSpread\<close>, the same expression
  in exact arithmetic.
\<close>

definition rangeSpread64 :: "real \<Rightarrow> real" where
  "rangeSpread64 confidence =
     (let baseSpread = binary64 0.05;
          confidenceFactor = binary64 (binary64 (100 - confidence) / 100)
      in binary64 (baseSpread + binary64 (confidenceFactor * binary64 0.10)))"



text \<open>
  \<open>calculateConfidence\<close>: the value of the local \<open>confidence\<close> after the three
  penalties, and the function itself, which floors that value at 50.
\<close>

definition penalizedConfidence :: "bool \<Rightarrow> real \<Rightarrow> real \<Rightarrow> real" where
  "penalizedConfidence hasExactCaratBand marketDepth dataAgeHours =
     (let confidence = 100;
          confidence = (if \<not> hasExactCaratBand then confidence - 10 else confidence);
          confidence = (if marketDepth < 50 then confidence - 15
                        else if marketDepth < 200 then confidence - 5
                        else confidence);
          confidence = (if dataAgeHours > 12 then confidence - 10
                        else if dataAgeHours > 6 then confidence - 5
                        else confidence)
      in confidence)"

definition calculateConfidence :: "bool \<Rightarrow> real \<Rightarrow> real \<Rightarrow> real" where
  "calculateConfidence hasExactCaratBand marketDepth dataAgeHours =
     max (penalizedConfidence hasExactCaratBand marketDepth dataAgeHours) 50"


section \<open>Market depth (pricingService.ts)\<close>

text \<open>
  \<open>MarketDepthResponse\<close>: three nested string-keyed records of counts. A field that the
  JSON payload lacks is \<open>None\<close> (the source reads them with \<open>?.\<close>).
\<close>

record MarketDepthResponse =
  clarity :: "(string \<rightharpoonup> (string \<rightharpoonup> real)) option"
  color :: "(string \<rightharpoonup> (string \<rightharpoonup> real)) option"
  colclar :: "(string \<rightharpoonup> (string \<rightharpoonup> real)) option"
  depth_ts :: string

text \<open>
  \<open>m?.[k1]?.[k2]\<close>: a missing map or key gives \<open>undefined\<close> (\<open>None\<close>) and stops the chain.
\<close>

definition lookup2 ::
  "(string \<rightharpoonup> (string \<rightharpoonup> real)) option \<Rightarrow> string \<Rightarrow> string \<Rightarrow> real option" where
  "lookup2 m k1 k2 =
     (case m of
        None \<Rightarrow> None
      | Some outer \<Rightarrow> (case outer k1 of None \<Rightarrow> None | Some inner \<Rightarrow> inner k2))"

text \<open>The test \<open>if (x)\<close> on a count that may be \<open>undefined\<close>: 0 and \<open>undefined\<close> are falsy.\<close>

definition truthy :: "real option \<Rightarrow> bool" where
  "truthy x = (case x of None \<Rightarrow> False | Some v \<Rightarrow> v \<noteq> 0)"

definition numberOf :: "real option \<Rightarrow> real" where
  "numberOf x = (case x of None \<Rightarrow> 0 | Some v \<Rightarrow> v)"

text \<open>
  \<open>getMarketDepth\<close>. The parameter \<open>toString\<close> is JavaScript's \<open>Number.prototype.toString\<close>,
  which renders the carat weight as the key of the two by-carat maps. With the payload typed
  as above no step of the body throws, so the \<open>catch\<close> branch (which returns 0) is never
  taken and the function returns a number on every input.
\<close>

definition getMarketDepth ::
  "(real \<Rightarrow> string) \<Rightarrow> MarketDepthResponse \<Rightarrow> real \<Rightarrow> string \<Rightarrow> string \<Rightarrow> real" where
  "getMarketDepth toString depthData caratWeight colorGrade clarityGrade =
     (let caratKey = toString caratWeight;
          colorClarityDepth = lookup2 (colclar depthData) colorGrade clarityGrade;
          clarityDepth = lookup2 (clarity depthData) caratKey clarityGrade;
          colorDepth = lookup2 (color depthData) caratKey colorGrade
      in if truthy colorClarityDepth then numberOf colorClarityDepth
         else if truthy clarityDepth then numberOf clarityDepth
         else if truthy colorDepth then numberOf colorDepth
         else 0)"

section \<open>Carat bands and interpolation (pricingService.ts)\<close>

datatype dataset = MATRIX | INDEX | DEPTH

datatype error =
    UnableToFindCaratBands real
  | NoCachedData dataset
  | FailedToCalculatePrice error

text \<open>
  \<open>xs[i]\<close> on a JavaScript array: \<open>undefined\<close> (\<open>None\<close>) outside \<open>0 .. length - 1\<close>.
  A comparison with \<open>undefined\<close> is false.
\<close>

definition elemAt :: "'a list \<Rightarrow> int \<Rightarrow> 'a option" where
  "elemAt xs i = (if 0 \<le> i \<and> i < int (length xs) then Some (xs ! nat i) else None)"

definition lessThan_js :: "real \<Rightarrow> real option \<Rightarrow> bool" where
  "lessThan_js x y = (case y of None \<Rightarrow> False | Some v \<Rightarrow> x < v)"

definition greaterThan_js :: "real \<Rightarrow> real option \<Rightarrow> bool" where
  "greaterThan_js x y = (case y of None \<Rightarrow> False | Some v \<Rightarrow> x > v)"

text \<open>
  The \<open>for\<close> loop of \<open>findCaratBands\<close> over the adjacent pairs \<open>bands[i], bands[i + 1]\<close>,
  \<open>i = 0 .. length - 2\<close>: the first pair that strictly brackets the weight.
\<close>

fun findBracket :: "real \<Rightarrow> real list \<Rightarrow> (real \<times> real) option" where
  "findBracket caratWeight (b1 # b2 # bands) =
     (if b1 < caratWeight \<and> caratWeight < b2 then Some (b1, b2)
      else findBracket caratWeight (b2 # bands))"
| "findBracket caratWeight bands = None"

text \<open>
  \<open>findCaratBands\<close>: \<open>Inl\<close> is the thrown \<open>Error\<close>; a component of the returned pair is
  \<open>None\<close> where the source reads an index outside the array.
\<close>

definition findCaratBands :: "real \<Rightarrow> real list \<Rightarrow> error + (real option \<times> real option)" where
  "findCaratBands caratWeight availableBands =
     (let bands = sort availableBands;
          n = int (length bands)
      in if caratWeight \<in> set bands then Inr (Some caratWeight, Some caratWeight)
         else (case findBracket caratWeight bands of
                 Some (lower, upper) \<Rightarrow> Inr (Some lower, Some upper)
               | None \<Rightarrow>
                   if lessThan_js caratWeight (elemAt bands 0)
                   then Inr (elemAt bands 0, elemAt bands 1)
                   else if greaterThan_js caratWeight (elemAt bands (n - 1))
                   then Inr (elemAt bands (n - 2), elemAt bands (n - 1))
                   else Inl (UnableToFindCaratBands caratWeight)))"

text \<open>
  \<open>interpolateLogPrice\<close> on finite doubles. The branch for equal bands does no arithmetic.
  In the other branch every operation is rounded to a double; two different doubles have a
  difference other than 0, so the division is by a number other than 0. A result that
  reaches \<open>2^1024\<close> in magnitude (an infinity in JavaScript) is outside the model.
\<close>

record Interpolation =
  interpolatedLogPrice :: real
  lambda :: real

definition interpolateLogPrice :: "real \<Rightarrow> real \<Rightarrow> real \<Rightarrow> real \<Rightarrow> real \<Rightarrow> Interpolation" where
  "interpolateLogPrice logPrice1 logPrice2 caratWeight caratBand1 caratBand2 =
     (if caratBand1 = caratBand2
      then \<lparr>interpolatedLogPrice = logPrice1, lambda = 0\<rparr>
      else (let lam = binary64 (binary64 (caratWeight - caratBand1) /
                                binary64 (caratBand2 - caratBand1));
                interpolated = binary64 (binary64 (binary64 (1 - lam) * logPrice1) +
                                         binary64 (lam * logPrice2))
            in \<lparr>interpolatedLogPrice = interpolated, lambda = lam\<rparr>))"

section \<open>Colour grade normalisation (pricingService.ts)\<close>

text \<open>
  Strings are compared as JavaScript compares them, code unit by code unit with a proper
  prefix first: the lexicographic order of \<^typ>\<open>string\<close>. \<open>toUpperCase\<close> is modelled on the
  ASCII letters; other characters are left as they are.
\<close>

definition toUpperCase_char :: "char \<Rightarrow> char" where
  "toUpperCase_char ch =
     (if CHR ''a'' \<le> ch \<and> ch \<le> CHR ''z'' then char_of (of_char ch - (32::nat)) else ch)"

definition toUpperCase :: "string \<Rightarrow> string" where
  "toUpperCase s = map toUpperCase_char s"

definition colorMap :: "(string \<times> string) list" where
  "colorMap =
     [(''Colorless'', ''E''), (''Near Colorless'', ''H''), (''Faint'', ''L''), (''Light'', ''M''),
      (''D-F'', ''E''), (''G-J'', ''H''), (''K-M'', ''L''), (''N-R'', ''M''), (''S-Z'', ''M'')]"

definition normalizeColorGrade :: "string \<Rightarrow> string list option \<Rightarrow> string" where
  "normalizeColorGrade colorGrade availableGrades =
     (let normalizedGrade =
            (case map_of colorMap colorGrade of
               Some grade \<Rightarrow> grade
             | None \<Rightarrow> toUpperCase colorGrade)
      in case availableGrades of
           None \<Rightarrow> normalizedGrade
         | Some grades \<Rightarrow>
             if length grades > 0
             then (let minGrade = hd grades;
                       maxGrade = last grades;
                       normalizedGrade =
                         (if normalizedGrade < minGrade then minGrade else normalizedGrade);
                       normalizedGrade =
                         (if normalizedGrade > maxGrade then maxGrade else normalizedGrade)
                   in normalizedGrade)
             else normalizedGrade)"

section \<open>Market data cache (openFacetAPI.ts)\<close>

text \<open>
  The three payloads. The fields of the price matrix are \<open>l\<close>, \<open>c\<close>, \<open>r\<close>, \<open>s\<close> and
  \<open>ts\<close> in the source; the timestamps of the other two payloads are \<open>ts\<close> as well.
\<close>

record PriceMatrixResponse =
  matrix_l :: "(string \<times> real list) list"
  matrix_c :: "string list"
  matrix_r :: "string list"
  matrix_s :: "real \<times> real"
  matrix_ts :: string

record DCXSpec =
  spec_carat :: real
  spec_clarity :: string
  spec_color :: string
  spec_cut :: string
  spec_log :: real
  spec_per_carat :: real
  spec_price :: real
  spec_weight :: real

record DCXIndexResponse =
  dcx :: real
  specs :: "DCXSpec list"
  trend :: real
  index_ts :: string

text \<open>Times are \<open>Date.now()\<close> readings: milliseconds, as integers.\<close>

record 'a CachedData =
  data :: 'a
  timestamp :: int
  expiresAt :: int

definition CACHE_EXPIRY_HOURS :: int where
  "CACHE_EXPIRY_HOURS = 24"

definition isCacheValid :: "int \<Rightarrow> 'a CachedData option \<Rightarrow> bool" where
  "isCacheValid now cached =
     (case cached of None \<Rightarrow> False | Some entry \<Rightarrow> now < expiresAt entry)"

definition createCacheEntry :: "int \<Rightarrow> 'a \<Rightarrow> 'a CachedData" where
  "createCacheEntry now payload =
     \<lparr>data = payload, timestamp = now, expiresAt = now + CACHE_EXPIRY_HOURS * 60 * 60 * 1000\<rparr>"

text \<open>
  What one \<open>GET\<close> does: \<open>fetch\<close> rejects, the response is not \<open>ok\<close> (with its status),
  \<open>response.json()\<close> rejects, or the payload arrives. The first three end in the \<open>catch\<close>
  block of the fetch operation.
\<close>

datatype 'a response = FetchRejected | NotOk nat | JsonRejected | Ok 'a

definition failed :: "'a response \<Rightarrow> bool" where
  "failed response = (case response of Ok payload \<Rightarrow> False | _ \<Rightarrow> True)"

text \<open>
  \<open>AsyncStorage\<close> holds one item per cache key; an item is the \<open>CachedData\<close> that
  \<open>JSON.parse\<close> reads back from the stored string (\<open>None\<close>: \<open>getItem\<close> gives \<open>null\<close>).
  Reading and writing the storage is taken to succeed, and \<open>JSON.stringify\<close> followed by
  \<open>JSON.parse\<close> to give the entry back.
\<close>

record AsyncStorage =
  matrixItem :: "PriceMatrixResponse CachedData option"
  indexItem :: "DCXIndexResponse CachedData option"
  depthItem :: "MarketDepthResponse CachedData option"

text \<open>
  The body that \<open>fetchDCXIndex\<close>, \<open>fetchPriceMatrix\<close> and \<open>fetchMarketDepth\<close> share, on
  the item of their key: the returned payload or thrown error, the item afterwards, and
  whether a \<open>GET\<close> was issued. \<open>nowCheck\<close> is the clock when \<open>isCacheValid\<close> runs,
  \<open>nowStore\<close> when \<open>createCacheEntry\<close> runs.
\<close>

record 'a Fetched =
  returned :: "error + 'a"
  item :: "'a CachedData option"
  requested :: bool

definition fetchCached ::
  "dataset \<Rightarrow> bool \<Rightarrow> int \<Rightarrow> int \<Rightarrow> 'a response \<Rightarrow> 'a CachedData option \<Rightarrow> 'a Fetched" where
  "fetchCached key forceRefresh nowCheck nowStore response cachedJson =
     (case (if \<not> forceRefresh \<and> isCacheValid nowCheck cachedJson then cachedJson else None) of
        Some cached \<Rightarrow> \<lparr>returned = Inr (data cached), item = cachedJson, requested = False\<rparr>
      | None \<Rightarrow>
          (case response of
             Ok payload \<Rightarrow>
               \<lparr>returned = Inr payload, item = Some (createCacheEntry nowStore payload),
                requested = True\<rparr>
           | _ \<Rightarrow>
               (case cachedJson of
                  Some cached \<Rightarrow>
                    \<lparr>returned = Inr (data cached), item = cachedJson, requested = True\<rparr>
                | None \<Rightarrow>
                    \<lparr>returned = Inl (NoCachedData key), item = cachedJson, requested = True\<rparr>)))"

record 'a Outcome =
  result :: "error + 'a"
  sentRequest :: bool
  storageAfter :: AsyncStorage

definition fetchDCXIndex ::
  "bool \<Rightarrow> int \<Rightarrow> int \<Rightarrow> DCXIndexResponse response \<Rightarrow> AsyncStorage \<Rightarrow> DCXIndexResponse Outcome" where
  "fetchDCXIndex forceRefresh nowCheck nowStore response storage =
     (let f = fetchCached INDEX forceRefresh nowCheck nowStore response (indexItem storage)
      in \<lparr>result = returned f, sentRequest = requested f,
          storageAfter = storage\<lparr>indexItem := item f\<rparr>\<rparr>)"

definition fetchPriceMatrix ::
  "bool \<Rightarrow> int \<Rightarrow> int \<Rightarrow> PriceMatrixResponse response \<Rightarrow> AsyncStorage \<Rightarrow> PriceMatrixResponse Outcome" where
  "fetchPriceMatrix forceRefresh nowCheck nowStore response storage =
     (let f = fetchCached MATRIX forceRefresh nowCheck nowStore response (matrixItem storage)
      in \<lparr>result = returned f, sentRequest = requested f,
          storageAfter = storage\<lparr>matrixItem := item f\<rparr>\<rparr>)"

definition fetchMarketDepth ::
  "bool \<Rightarrow> int \<Rightarrow> int \<Rightarrow> MarketDepthResponse response \<Rightarrow> AsyncStorage \<Rightarrow> MarketDepthResponse Outcome" where
  "fetchMarketDepth forceRefresh nowCheck nowStore response storage =
     (let f = fetchCached DEPTH forceRefresh nowCheck nowStore response (depthItem storage)
      in \<lparr>result = returned f, sentRequest = requested f,
          storageAfter = storage\<lparr>depthItem := item f\<rparr>\<rparr>)"

text \<open>
  The data retrieval of \<open>calculateDiamondPrice\<close>: \<open>Promise.all\<close> over the three fetch
  operations, each with the default \<open>forceRefresh = false\<close>. The operations work on
  different storage keys and different URLs, so running them one after the other gives the
  storage that any interleaving gives. When several of them reject, the model reports the
  rejection of the first in the order of the array. \<open>clock\<close> gives each operation its
  two clock readings.
\<close>

record Network =
  matrixResponse :: "PriceMatrixResponse response"
  indexResponse :: "DCXIndexResponse response"
  depthResponse :: "MarketDepthResponse response"

definition fetchAll ::
  "(dataset \<Rightarrow> int \<times> int) \<Rightarrow> Network \<Rightarrow> AsyncStorage \<Rightarrow>
   (error + PriceMatrixResponse \<times> DCXIndexResponse \<times> MarketDepthResponse) \<times> AsyncStorage" where
  "fetchAll clock net storage =
     (let m = fetchPriceMatrix False (fst (clock MATRIX)) (snd (clock MATRIX))
                (matrixResponse net) storage;
          i = fetchDCXIndex False (fst (clock INDEX)) (snd (clock INDEX))
                (indexResponse net) (storageAfter m);
          d = fetchMarketDepth False (fst (clock DEPTH)) (snd (clock DEPTH))
                (depthResponse net) (storageAfter i)
      in ((case result m of
             Inl e \<Rightarrow> Inl e
           | Inr matrixData \<Rightarrow>
               (case result i of
                  Inl e \<Rightarrow> Inl e
                | Inr indexData \<Rightarrow>
                    (case result d of
                       Inl e \<Rightarrow> Inl e
                     | Inr depthData \<Rightarrow> Inr (matrixData, indexData, depthData)))),
          storageAfter d))"

text \<open>
  \<open>calculateDiamondPrice\<close>: the retrieval, then the computation of the quote from the three
  payloads (lines 321 to 419 of the source), which is the parameter \<open>priceFromData\<close> here;
  the \<open>catch\<close> block rethrows every error as \<open>Failed to calculate price: ...\<close>.
\<close>

definition calculateDiamondPrice ::
  "(PriceMatrixResponse \<Rightarrow> DCXIndexResponse \<Rightarrow> MarketDepthResponse \<Rightarrow> error + 'q) \<Rightarrow>
   (dataset \<Rightarrow> int \<times> int) \<Rightarrow> Network \<Rightarrow> AsyncStorage \<Rightarrow> (error + 'q) \<times> AsyncStorage" where
  "calculateDiamondPrice priceFromData clock net storage =
     (case fetchAll clock net storage of
        (Inl e, storage') \<Rightarrow> (Inl (FailedToCalculatePrice e), storage')
      | (Inr (matrixData, indexData, depthData), storage') \<Rightarrow>
          (case priceFromData matrixData indexData depthData of
             Inl e \<Rightarrow> (Inl (FailedToCalculatePrice e), storage')
           | Inr quote \<Rightarrow> (Inr quote, storage')))"

section \<open>Example payloads\<close>

text \<open>
  The data of the specification's scenario, for the concrete instances below: a grid with
  the bands 1.0 and 1.5 (log-prices 9.0 and 9.4 at colour G, clarity VS2), an index, and
  depth counts. \<open>expiredStorage\<close> holds all three, captured at time 0 and expired at
  86400000; \<open>emptyStorage\<close> holds nothing; \<open>offline\<close> is a network on which every
  request fails.
\<close>

definition scenarioMatrix :: PriceMatrixResponse where
  "scenarioMatrix =
     \<lparr>matrix_l = [(''1.0'', [9]), (''1.5'', [47 / 5])], matrix_c = [''VS2''],
      matrix_r = [''G''], matrix_s = (1, 1), matrix_ts = ''2025-01-01T00:00:00Z''\<rparr>"

definition scenarioIndex :: DCXIndexResponse where
  "scenarioIndex = \<lparr>dcx = 8000, specs = [], trend = 13 / 100, index_ts = ''2025-01-01T00:00:00Z''\<rparr>"

definition scenarioDepth :: MarketDepthResponse where
  "scenarioDepth =
     \<lparr>clarity = Some [''1.25'' \<mapsto> [''VS2'' \<mapsto> 40]],
      color = Some [''1.25'' \<mapsto> [''G'' \<mapsto> 7]],
      colclar = Some [''G'' \<mapsto> [''VS2'' \<mapsto> 120]],
      depth_ts = ''2025-01-01T00:00:00Z''\<rparr>"

definition byCaratDepth :: MarketDepthResponse where
  "byCaratDepth = scenarioDepth\<lparr>colclar := Some [''G'' \<mapsto> [''VS2'' \<mapsto> 0]]\<rparr>"

definition noDepth :: MarketDepthResponse where
  "noDepth = \<lparr>clarity = None, color = Some Map.empty, colclar = Some [''G'' \<mapsto> Map.empty],
              depth_ts = ''2025-01-01T00:00:00Z''\<rparr>"

definition expiredStorage :: AsyncStorage where
  "expiredStorage =
     \<lparr>matrixItem = Some \<lparr>data = scenarioMatrix, timestamp = 0, expiresAt = 86400000\<rparr>,
      indexItem = Some \<lparr>data = scenarioIndex, timestamp = 0, expiresAt = 86400000\<rparr>,
      depthItem = Some \<lparr>data = scenarioDepth, timestamp = 0, expiresAt = 86400000\<rparr>\<rparr>"

definition emptyStorage :: AsyncStorage where
  "emptyStorage = \<lparr>matrixItem = None, indexItem = None, depthItem = None\<rparr>"

definition offline :: Network where
  "offline = \<lparr>matrixResponse = FetchRejected, indexResponse = NotOk 503,
               depthResponse = JsonRejected\<rparr>"

section \<open>Lemmas\<close>

lemma exponent2_bounds:
  "x \<noteq> 0 \<Longrightarrow> 2 powi exponent2 x \<le> \<bar>x\<bar> \<and> \<bar>x\<bar> < 2 powi (exponent2 x + 1)"
proof (induction x rule: exponent2.induct)
  case (1 x)
  consider (big) "2 \<le> \<bar>x\<bar>" | (small) "\<bar>x\<bar> < 1" | (unit) "1 \<le> \<bar>x\<bar>" "\<bar>x\<bar> < 2"
    by linarith
  then show ?case
  proof cases
    case big
    then have e: "exponent2 x = exponent2 (x / 2) + 1"
      using "1.prems" by (subst exponent2.simps) simp
    have ih: "2 powi exponent2 (x / 2) \<le> \<bar>x / 2\<bar> \<and> \<bar>x / 2\<bar> < 2 powi (exponent2 (x / 2) + 1)"
      using "1.IH"(1) "1.prems" big by simp
    show ?thesis
      using ih unfolding e by (simp add: power_int_add field_simps)
  next
    case small
    then have e: "exponent2 x = exponent2 (x * 2) - 1"
      using "1.prems" by (subst exponent2.simps) simp
    have ih: "2 powi exponent2 (x * 2) \<le> \<bar>x * 2\<bar> \<and> \<bar>x * 2\<bar> < 2 powi (exponent2 (x * 2) + 1)"
      using "1.IH"(2) "1.prems" small by simp
    show ?thesis
      using ih unfolding e by (simp add: power_int_add power_int_diff field_simps abs_mult)
  next
    case unit
    then have e: "exponent2 x = 0"
      using "1.prems" by (subst exponent2.simps) simp
    show ?thesis using unit unfolding e by simp
  qed
qed

lemma roundTiesToEven_near:
  "\<bar>of_int (roundTiesToEven x) - x\<bar> \<le> 1 / 2"
  unfolding roundTiesToEven_def Let_def by (auto; linarith)

lemma roundTiesToEven_int: "roundTiesToEven (of_int n) = n"
  by (simp add: roundTiesToEven_def)

lemma roundTiesToEven_mono:
  assumes "x \<le> y"
  shows "roundTiesToEven x \<le> roundTiesToEven y"
proof (rule ccontr)
  assume "\<not> roundTiesToEven x \<le> roundTiesToEven y"
  then have lt: "roundTiesToEven y + 1 \<le> roundTiesToEven x" by simp
  have nx: "\<bar>of_int (roundTiesToEven x) - x\<bar> \<le> 1 / 2"
    and ny: "\<bar>of_int (roundTiesToEven y) - y\<bar> \<le> 1 / 2"
    by (rule roundTiesToEven_near)+
  from lt have "(of_int (roundTiesToEven y) :: real) + 1 \<le> of_int (roundTiesToEven x)"
    by (metis of_int_1 of_int_add of_int_le_iff)
  with nx ny assms have eq: "x = y"
    and rx: "of_int (roundTiesToEven x) = x + 1 / 2"
    and ry: "of_int (roundTiesToEven y) = y - 1 / 2"
    by linarith+
  from eq lt show False by simp
qed

lemma binary64_zero: "binary64 0 = 0"
  by (simp add: binary64_def roundTiesToEven_def Let_def)

lemma binary64_nonneg: "0 \<le> x \<Longrightarrow> 0 \<le> binary64 x"
proof -
  assume x: "0 \<le> x"
  define ulp :: real where "ulp = 2 powi (max (exponent2 x) (- 1022) - 52)"
  have pos: "0 < ulp" by (simp add: ulp_def)
  have "roundTiesToEven (of_int 0) \<le> roundTiesToEven (x / ulp)"
    using x pos by (intro roundTiesToEven_mono) simp
  moreover have "roundTiesToEven (of_int 0) = 0" by (rule roundTiesToEven_int)
  ultimately have "0 \<le> roundTiesToEven (x / ulp)" by simp
  then show ?thesis using pos by (simp add: binary64_def Let_def ulp_def)
qed

lemma binary64_relative:
  assumes "2 powi (- 1022) \<le> x"
  shows "(1 - 1 / 2 ^ 53) * x \<le> binary64 x \<and> binary64 x \<le> (1 + 1 / 2 ^ 53) * x"
proof -
  have x: "0 < x" using assms by (smt (verit) zero_less_power_int)
  then have b: "2 powi exponent2 x \<le> x" "x < 2 powi (exponent2 x + 1)"
    using exponent2_bounds [of x] by simp_all
  have e: "- 1022 \<le> exponent2 x"
  proof (rule ccontr)
    assume "\<not> - 1022 \<le> exponent2 x"
    then have "exponent2 x + 1 \<le> - 1022" by simp
    then have "(2 :: real) powi (exponent2 x + 1) \<le> 2 powi (- 1022)"
      by (intro power_int_increasing) simp_all
    with b(2) assms show False by simp
  qed
  define ulp :: real where "ulp = 2 powi (exponent2 x - 52)"
  have pos: "0 < ulp" by (simp add: ulp_def)
  have half: "ulp / 2 \<le> x / 2 ^ 53"
  proof -
    have "ulp = 2 powi exponent2 x / 2 ^ 52" by (simp add: ulp_def power_int_diff)
    then show ?thesis using b(1) by (simp add: field_simps)
  qed
  have eq: "binary64 x = of_int (roundTiesToEven (x / ulp)) * ulp"
    using e by (simp add: binary64_def Let_def ulp_def max_def)
  have "\<bar>of_int (roundTiesToEven (x / ulp)) - x / ulp\<bar> \<le> 1 / 2"
    by (rule roundTiesToEven_near)
  then have "\<bar>of_int (roundTiesToEven (x / ulp)) - x / ulp\<bar> * ulp \<le> 1 / 2 * ulp"
    using pos by (intro mult_right_mono) simp_all
  moreover have "of_int (roundTiesToEven (x / ulp)) * ulp - x =
      (of_int (roundTiesToEven (x / ulp)) - x / ulp) * ulp"
    using pos by (simp add: left_diff_distrib)
  then have "\<bar>of_int (roundTiesToEven (x / ulp)) * ulp - x\<bar> =
      \<bar>of_int (roundTiesToEven (x / ulp)) - x / ulp\<bar> * ulp"
    using pos by (simp only: abs_mult abs_of_pos)
  ultimately have "\<bar>of_int (roundTiesToEven (x / ulp)) * ulp - x\<bar> \<le> ulp / 2"
    by simp
  then have "\<bar>binary64 x - x\<bar> \<le> x / 2 ^ 53" using eq half by simp
  then have "x - x / 2 ^ 53 \<le> binary64 x" "binary64 x \<le> x + x / 2 ^ 53"
    by linarith+
  then show ?thesis by (simp add: left_diff_distrib distrib_right)
qed

lemma binary64_mono:
  assumes "0 \<le> x" "x \<le> y"
  shows "binary64 x \<le> binary64 y"
proof (cases "x = 0")
  case True
  then show ?thesis using assms binary64_nonneg [of y] by (simp add: binary64_zero)
next
  case False
  then have x: "0 < x" and y: "0 < y" using assms by simp_all
  define ex where "ex = max (exponent2 x) (- 1022)"
  define ey where "ey = max (exponent2 y) (- 1022)"
  have bx: "2 powi exponent2 x \<le> x" "x < 2 powi (exponent2 x + 1)"
    using exponent2_bounds [of x] x by simp_all
  have by': "2 powi exponent2 y \<le> y" "y < 2 powi (exponent2 y + 1)"
    using exponent2_bounds [of y] y by simp_all
  have le: "exponent2 x \<le> exponent2 y"
  proof (rule ccontr)
    assume "\<not> exponent2 x \<le> exponent2 y"
    then have "exponent2 y + 1 \<le> exponent2 x" by simp
    then have "(2 :: real) powi (exponent2 y + 1) \<le> 2 powi exponent2 x"
      by (intro power_int_increasing) simp_all
    with bx(1) by'(2) assms(2) show False by simp
  qed
  then have exy: "ex \<le> ey" by (simp add: ex_def ey_def max_def)
  have rx: "binary64 x = of_int (roundTiesToEven (x / 2 powi (ex - 52))) * 2 powi (ex - 52)"
    by (simp add: binary64_def Let_def ex_def)
  have ry: "binary64 y = of_int (roundTiesToEven (y / 2 powi (ey - 52))) * 2 powi (ey - 52)"
    by (simp add: binary64_def Let_def ey_def)
  show ?thesis
  proof (cases "ex = ey")
    case True
    have "x / 2 powi (ey - 52) \<le> y / 2 powi (ey - 52)"
      using assms(2) by (simp add: divide_right_mono)
    then have "roundTiesToEven (x / 2 powi (ey - 52)) \<le> roundTiesToEven (y / 2 powi (ey - 52))"
      by (rule roundTiesToEven_mono)
    then show ?thesis unfolding rx ry True
      by (intro mult_right_mono) simp_all
  next
    case False
    with exy have lt: "ex + 1 \<le> ey" by simp
    moreover have "- 1022 \<le> ex" by (simp add: ex_def)
    ultimately have "- 1022 < ey" by simp
    then have eyy: "ey = exponent2 y" by (simp add: ey_def max_def split: if_splits)
    have "exponent2 x + 1 \<le> ex + 1" by (simp add: ex_def)
    then have "(2 :: real) powi (exponent2 x + 1) \<le> 2 powi (ex + 1)"
      by (intro power_int_increasing) simp_all
    with bx(2) have xtop: "x \<le> 2 powi (ex + 1)" by simp
    have "x / 2 powi (ex - 52) \<le> 2 powi (ex + 1) / 2 powi (ex - 52)"
      using xtop by (simp add: divide_right_mono)
    also have "(2 :: real) powi (ex + 1) / 2 powi (ex - 52) = of_int (2 ^ 53)"
      by (simp add: power_int_diff [symmetric])
    finally have "roundTiesToEven (x / 2 powi (ex - 52)) \<le> roundTiesToEven (of_int (2 ^ 53))"
      by (rule roundTiesToEven_mono)
    then have "roundTiesToEven (x / 2 powi (ex - 52)) \<le> 2 ^ 53"
      by (simp only: roundTiesToEven_int)
    then have "(of_int (roundTiesToEven (x / 2 powi (ex - 52))) :: real) \<le> 2 ^ 53"
      by (metis of_int_le_iff of_int_numeral of_int_power)
    then have "binary64 x \<le> 2 ^ 53 * 2 powi (ex - 52)"
      unfolding rx by (intro mult_right_mono) simp_all
    also have "(2 :: real) ^ 53 * 2 powi (ex - 52) = 2 powi (ex + 1)"
      by (simp add: power_int_diff power_int_add)
    also have "(2 :: real) powi (ex + 1) \<le> 2 powi ey"
      using lt by (intro power_int_increasing) simp_all
    finally have upper: "binary64 x \<le> 2 powi ey" .
    have "(of_int (2 ^ 52) :: real) = 2 powi ey / 2 powi (ey - 52)"
      by (simp add: power_int_diff [symmetric])
    also have "\<dots> \<le> y / 2 powi (ey - 52)"
      using by'(1) eyy by (simp add: divide_right_mono)
    finally have "roundTiesToEven (of_int (2 ^ 52)) \<le> roundTiesToEven (y / 2 powi (ey - 52))"
      by (rule roundTiesToEven_mono)
    then have "2 ^ 52 \<le> roundTiesToEven (y / 2 powi (ey - 52))"
      by (simp only: roundTiesToEven_int)
    then have "(2 :: real) ^ 52 \<le> of_int (roundTiesToEven (y / 2 powi (ey - 52)))"
      by (metis of_int_le_iff of_int_numeral of_int_power)
    then have "2 ^ 52 * 2 powi (ey - 52) \<le> binary64 y"
      unfolding ry by (intro mult_right_mono) simp_all
    moreover have "(2 :: real) ^ 52 * 2 powi (ey - 52) = 2 powi ey"
      by (simp add: power_int_diff)
    ultimately have "2 powi ey \<le> binary64 y" by simp
    with upper show ?thesis by simp
  qed
qed

lemma rangeSpread64_formula:
  "rangeSpread64 c =
     binary64 (binary64 (5 / 100) +
               binary64 (binary64 (binary64 (100 - c) / 100) * binary64 (10 / 100)))"
  by (simp add: rangeSpread64_def Let_def)

lemma binary64_5_percent: "binary64 (5 / 100) = 3602879701896397 / 72057594037927936"
  by (simp add: binary64_def exponent2.simps roundTiesToEven_def Let_def)

lemma binary64_10_percent: "binary64 (10 / 100) = 3602879701896397 / 36028797018963968"
  by (simp add: binary64_def exponent2.simps roundTiesToEven_def Let_def)

lemma interpolateLogPrice_formula:
  "caratBand1 \<noteq> caratBand2 \<Longrightarrow>
   interpolateLogPrice logPrice1 logPrice2 caratWeight caratBand1 caratBand2 =
     \<lparr>interpolatedLogPrice =
        binary64 (binary64 (binary64 (1 - binary64 (binary64 (caratWeight - caratBand1) /
                                                   binary64 (caratBand2 - caratBand1))) * logPrice1) +
                  binary64 (binary64 (binary64 (caratWeight - caratBand1) /
                                      binary64 (caratBand2 - caratBand1)) * logPrice2)),
      lambda = binary64 (binary64 (caratWeight - caratBand1) / binary64 (caratBand2 - caratBand1))\<rparr>"
  by (simp add: interpolateLogPrice_def Let_def)



lemma rangeSpread64_at_65: "rangeSpread64 65 = 3062447746611937 / 36028797018963968"
proof -
  have s1: "binary64 (100 - 65) = 35"
    by (simp add: binary64_def exponent2.simps roundTiesToEven_def Let_def)
  have s2: "binary64 (35 / 100) = 3152519739159347 / 9007199254740992"
    by (simp add: binary64_def exponent2.simps roundTiesToEven_def Let_def)
  have s3: "binary64 (3152519739159347 / 9007199254740992 * (3602879701896397 / 36028797018963968)) = 5044031582654955 / 144115188075855872"
    by (simp add: binary64_def exponent2.simps roundTiesToEven_def Let_def)
  have s4: "binary64 (3602879701896397 / 72057594037927936 + (5044031582654955 / 144115188075855872)) = 3062447746611937 / 36028797018963968"
    by (simp add: binary64_def exponent2.simps roundTiesToEven_def Let_def)
  show ?thesis
    unfolding rangeSpread64_formula binary64_5_percent binary64_10_percent s1 s2 s3 s4 ..
qed




lemma interpolateLogPrice_next_to_band:
  "interpolateLogPrice 9 (5291729562160333 / 562949953421312) (4503599627370497 / 4503599627370496) 1 (3 / 2) =
     \<lparr>interpolatedLogPrice = 9, lambda = 1 / 2251799813685248\<rparr>"
proof -
  have ne: "(1 :: real) \<noteq> 3 / 2" by simp
  have t1: "binary64 (4503599627370497 / 4503599627370496 - 1) = 1 / 4503599627370496"
    by (simp add: binary64_def exponent2.simps roundTiesToEven_def Let_def)
  have t2: "binary64 (3 / 2 - 1) = 1 / 2"
    by (simp add: binary64_def exponent2.simps roundTiesToEven_def Let_def)
  have q: "binary64 (1 / 4503599627370496 / (1 / 2)) = 1 / 2251799813685248"
    by (simp add: binary64_def exponent2.simps roundTiesToEven_def Let_def)
  have a: "binary64 (1 - (1 / 2251799813685248)) = 2251799813685247 / 2251799813685248"
    by (simp add: binary64_def exponent2.simps roundTiesToEven_def Let_def)
  have p1: "binary64 (2251799813685247 / 2251799813685248 * 9) = 2533274790395903 / 281474976710656"
    by (simp add: binary64_def exponent2.simps roundTiesToEven_def Let_def)
  have p2: "binary64 (1 / 2251799813685248 * (5291729562160333 / 562949953421312)) = 5291729562160333 / 1267650600228229401496703205376"
    by (simp add: binary64_def exponent2.simps roundTiesToEven_def Let_def)
  have v: "binary64 (2533274790395903 / 281474976710656 + (5291729562160333 / 1267650600228229401496703205376)) = 9"
    by (simp add: binary64_def exponent2.simps roundTiesToEven_def Let_def)
  show ?thesis
    unfolding interpolateLogPrice_formula [OF ne] t1 t2 q a p1 p2 v ..
qed

lemma interpolateLogPrice_scenario:
  "interpolateLogPrice 9 (5291729562160333 / 562949953421312) (5 / 4) 1 (3 / 2) =
     \<lparr>interpolatedLogPrice = 2589569785738035 / 281474976710656, lambda = 1 / 2\<rparr>"
proof -
  have ne: "(1 :: real) \<noteq> 3 / 2" by simp
  have t1: "binary64 (5 / 4 - 1) = 1 / 4"
    by (simp add: binary64_def exponent2.simps roundTiesToEven_def Let_def)
  have t2: "binary64 (3 / 2 - 1) = 1 / 2"
    by (simp add: binary64_def exponent2.simps roundTiesToEven_def Let_def)
  have q: "binary64 (1 / 4 / (1 / 2)) = 1 / 2"
    by (simp add: binary64_def exponent2.simps roundTiesToEven_def Let_def)
  have a: "binary64 (1 - (1 / 2)) = 1 / 2"
    by (simp add: binary64_def exponent2.simps roundTiesToEven_def Let_def)
  have p1: "binary64 (1 / 2 * 9) = 9 / 2"
    by (simp add: binary64_def exponent2.simps roundTiesToEven_def Let_def)
  have p2: "binary64 (1 / 2 * (5291729562160333 / 562949953421312)) = 5291729562160333 / 1125899906842624"
    by (simp add: binary64_def exponent2.simps roundTiesToEven_def Let_def)
  have v: "binary64 (9 / 2 + (5291729562160333 / 1125899906842624)) = 2589569785738035 / 281474976710656"
    by (simp add: binary64_def exponent2.simps roundTiesToEven_def Let_def)
  show ?thesis
    unfolding interpolateLogPrice_formula [OF ne] t1 t2 q a p1 p2 v ..
qed

text \<open>
  Two log-prices one double apart (7.482 and the next double), bands 0.7 and 1.0, weight
  0.83: the computed log-price is the double below 7.482, outside the two log-prices.
\<close>

lemma interpolateLogPrice_close_log_prices:
  "interpolateLogPrice (8423983102996513 / 1125899906842624) (4211991551498257 / 562949953421312) (7475975381435023 / 9007199254740992) (3152519739159347 / 4503599627370496) 1 =
     \<lparr>interpolatedLogPrice = 263249471968641 / 35184372088832, lambda = 7806239354108859 / 18014398509481984\<rparr>"
proof -
  have ne: "(3152519739159347 / 4503599627370496 :: real) \<noteq> 1" by simp
  have t1: "binary64 (7475975381435023 / 9007199254740992 - (3152519739159347 / 4503599627370496)) = 1170935903116329 / 9007199254740992"
    by (simp add: binary64_def exponent2.simps roundTiesToEven_def Let_def)
  have t2: "binary64 (1 - (3152519739159347 / 4503599627370496)) = 1351079888211149 / 4503599627370496"
    by (simp add: binary64_def exponent2.simps roundTiesToEven_def Let_def)
  have q: "binary64 (1170935903116329 / 9007199254740992 / (1351079888211149 / 4503599627370496)) = 7806239354108859 / 18014398509481984"
    by (simp add: binary64_def exponent2.simps roundTiesToEven_def Let_def)
  have a: "binary64 (1 - (7806239354108859 / 18014398509481984)) = 2552039788843281 / 4503599627370496"
    by (simp add: binary64_def exponent2.simps roundTiesToEven_def Let_def)
  have p1: "binary64 (2552039788843281 / 4503599627370496 * (8423983102996513 / 1125899906842624)) = 4773590425031357 / 1125899906842624"
    by (simp add: binary64_def exponent2.simps roundTiesToEven_def Let_def)
  have p2: "binary64 (7806239354108859 / 18014398509481984 * (4211991551498257 / 562949953421312)) = 7300785355930311 / 2251799813685248"
    by (simp add: binary64_def exponent2.simps roundTiesToEven_def Let_def)
  have v: "binary64 (4773590425031357 / 1125899906842624 + (7300785355930311 / 2251799813685248)) = 263249471968641 / 35184372088832"
    by (simp add: binary64_def exponent2.simps roundTiesToEven_def Let_def)
  show ?thesis
    unfolding interpolateLogPrice_formula [OF ne] t1 t2 q a p1 p2 v ..
qed

lemma interpolateLogPrice_below_lower_log_price:
  "(3152519739159347 / 4503599627370496 :: real) < 7475975381435023 / 9007199254740992 \<and> (7475975381435023 / 9007199254740992 :: real) < 1 \<and>
   (8423983102996513 / 1125899906842624 :: real) < 4211991551498257 / 562949953421312 \<and>
   interpolatedLogPrice
     (interpolateLogPrice (8423983102996513 / 1125899906842624) (4211991551498257 / 562949953421312) (7475975381435023 / 9007199254740992) (3152519739159347 / 4503599627370496) 1) < 8423983102996513 / 1125899906842624"
  unfolding interpolateLogPrice_close_log_prices by simp

lemma rangeSpread64_upto:
  assumes "lo \<le> c" and "c \<le> 100"
  shows "3602879701896397 / 72057594037927936 \<le> rangeSpread64 c \<and>
         rangeSpread64 c \<le> rangeSpread64 lo"
proof -
  define b5 :: real where "b5 = 3602879701896397 / 72057594037927936"
  define b10 :: real where "b10 = 3602879701896397 / 36028797018963968"
  have pos: "0 \<le> b5" "0 \<le> b10" by (simp_all add: b5_def b10_def)
  define f1 where "f1 x = binary64 (100 - x)" for x :: real
  define f2 where "f2 x = binary64 (f1 x / 100)" for x :: real
  define f3 where "f3 x = binary64 (f2 x * b10)" for x :: real
  have s: "rangeSpread64 x = binary64 (b5 + f3 x)" for x
    unfolding rangeSpread64_formula binary64_5_percent binary64_10_percent
      f3_def f2_def f1_def b5_def b10_def ..
  have n1: "0 \<le> f1 c" unfolding f1_def using assms by (intro binary64_nonneg) simp
  have m1: "f1 c \<le> f1 lo" unfolding f1_def using assms by (intro binary64_mono) simp_all
  have n2: "0 \<le> f2 c" unfolding f2_def using n1 by (intro binary64_nonneg) simp
  have m2: "f2 c \<le> f2 lo" unfolding f2_def using n1 m1
    by (intro binary64_mono) (simp_all add: divide_right_mono)
  have n3: "0 \<le> f3 c" unfolding f3_def using n2 pos by (intro binary64_nonneg) simp
  have m3: "f3 c \<le> f3 lo" unfolding f3_def using n2 m2 pos
    by (intro binary64_mono) (simp_all add: mult_right_mono)
  have "binary64 b5 \<le> binary64 (b5 + f3 c)"
    using pos n3 by (intro binary64_mono) simp_all
  moreover have "binary64 b5 = b5"
    by (simp add: b5_def binary64_def exponent2.simps roundTiesToEven_def Let_def)
  moreover have "binary64 (b5 + f3 c) \<le> binary64 (b5 + f3 lo)"
    using pos n3 m3 by (intro binary64_mono) simp_all
  ultimately have "b5 \<le> rangeSpread64 c \<and> rangeSpread64 c \<le> rangeSpread64 lo"
    by (simp only: s)
  then show ?thesis by (simp only: b5_def)
qed


text \<open>
  At every confidence that \<open>calculateConfidence\<close> returns (65 to 100), the spread in
  doubles is at most 8.5 percent, the bound of the exact expression \<open>rangeSpread\<close>.
\<close>

lemma rangeSpread64_reachable:
  assumes "65 \<le> c" and "c \<le> 100"
  shows "rangeSpread64 c \<le> 85 / 1000"
proof -
  have "rangeSpread64 c \<le> 3062447746611937 / 36028797018963968"
    using rangeSpread64_upto [OF assms] by (simp only: rangeSpread64_at_65)
  then show ?thesis by simp
qed

lemma interpolation_within_margin:
  fixes L l1 l2 :: real
  assumes l1: "1 \<le> l1" and lt: "l1 < l2"
    and m1: "l2 / 2 ^ 50 \<le> L * (l2 - l1)"
    and m2: "l2 / 2 ^ 50 \<le> (1 - L) * (l2 - l1)"
  defines "V \<equiv> binary64 (binary64 (binary64 (1 - L) * l1) + binary64 (L * l2))"
  shows "l1 < V \<and> V < l2"
proof -
  define cm :: real where "cm = 1 - 1 / 2 ^ 53"
  define cp :: real where "cp = 1 + 1 / 2 ^ 53"
  define d where "d = l2 - l1"
  define A where "A = binary64 (1 - L)"
  define P1 where "P1 = binary64 (A * l1)"
  define P2 where "P2 = binary64 (L * l2)"
  define X where "X = (1 - L) * l1"
  define Y where "Y = L * l2"
  have V: "V = binary64 (P1 + P2)" by (simp add: V_def A_def P1_def P2_def)
  have cm: "0 < cm" "cm \<le> 1" and cp: "1 \<le> cp" "0 < cp" by (simp_all add: cm_def cp_def)
  have num_lo: "1 < cm * cm * cm * (1 + 1 / 2 ^ 50)" by (simp add: cm_def)
  have num_hi: "cp * cp * cp * (1 - 1 / 2 ^ 50) < 1" by (simp add: cp_def)
  have tiny: "(2 :: real) powi (- 1022) \<le> 1 / 2 ^ 52"
    by (simp add: power_int_minus field_simps)
  have pos: "0 < l1" "0 < l2" "0 < d" "d \<le> l2" using l1 lt by (simp_all add: d_def)
  have Ld: "l2 / 2 ^ 50 \<le> L * d" and Md: "l2 / 2 ^ 50 \<le> (1 - L) * d"
    using m1 m2 by (simp_all add: d_def)
  have "1 / 2 ^ 50 * d \<le> l2 / 2 ^ 50" using pos by (simp add: field_simps)
  then have "1 / 2 ^ 50 * d \<le> L * d" "1 / 2 ^ 50 * d \<le> (1 - L) * d" using Ld Md by simp_all
  then have L: "1 / 2 ^ 50 \<le> L" and M: "1 / 2 ^ 50 \<le> 1 - L"
    using pos(3) by (simp_all only: mult_le_cancel_right_pos)
  have XY: "0 \<le> X" "0 \<le> Y" using L M pos by (simp_all add: X_def Y_def)
  \<comment> \<open>the four roundings\<close>
  have "2 powi (- 1022) \<le> 1 - L" using tiny M by simp
  from binary64_relative [OF this]
  have A: "cm * (1 - L) \<le> A" "A \<le> cp * (1 - L)" by (simp_all add: A_def cm_def cp_def)
  have Alo: "1 / 2 ^ 52 \<le> A"
  proof -
    have "1 / 2 ^ 52 \<le> cm * (1 / 2 ^ 50)" by (simp add: cm_def)
    also have "\<dots> \<le> cm * (1 - L)" using M cm by (intro mult_left_mono) simp_all
    finally show ?thesis using A(1) by simp
  qed
  have "A * 1 \<le> A * l1" using Alo l1 by (intro mult_left_mono) simp_all
  then have "A \<le> A * l1" by simp
  then have "2 powi (- 1022) \<le> A * l1" using tiny Alo by linarith
  from binary64_relative [OF this]
  have P1: "cm * (A * l1) \<le> P1" "P1 \<le> cp * (A * l1)" by (simp_all add: P1_def cm_def cp_def)
  have "L * 1 \<le> L * l2" using L pos l1 lt by (intro mult_left_mono) simp_all
  then have "L \<le> L * l2" by simp
  then have Ylo: "1 / 2 ^ 50 \<le> L * l2" using L by linarith
  moreover have "(2 :: real) powi (- 1022) \<le> 1 / 2 ^ 50"
    by (simp add: power_int_minus field_simps)
  ultimately have "2 powi (- 1022) \<le> L * l2" by (rule order_trans [rotated])
  from binary64_relative [OF this]
  have P2: "cm * Y \<le> P2" "P2 \<le> cp * Y" by (simp_all add: P2_def Y_def cm_def cp_def)
  have AX: "cm * X \<le> A * l1" "A * l1 \<le> cp * X"
    using A pos by (simp_all add: X_def mult_right_mono mult.assoc [symmetric])
  have P1X: "cm * (cm * X) \<le> P1" "P1 \<le> cp * (cp * X)"
  proof -
    have "cm * (cm * X) \<le> cm * (A * l1)" using AX(1) cm by (intro mult_left_mono) simp_all
    then show "cm * (cm * X) \<le> P1" using P1(1) by simp
    have "cp * (A * l1) \<le> cp * (cp * X)" using AX(2) cp by (intro mult_left_mono) simp_all
    then show "P1 \<le> cp * (cp * X)" using P1(2) by simp
  qed
  have P2Y: "cm * (cm * Y) \<le> P2" "P2 \<le> cp * (cp * Y)"
  proof -
    have "cm * Y \<le> 1 * Y" using cm XY by (intro mult_right_mono) simp_all
    then have "cm * (cm * Y) \<le> cm * Y" using cm by (intro mult_left_mono) simp_all
    then show "cm * (cm * Y) \<le> P2" using P2(1) by simp
    have "1 * Y \<le> cp * Y" using cp XY by (intro mult_right_mono) simp_all
    then have "cp * Y \<le> cp * (cp * Y)" using cp by (intro mult_left_mono) simp_all
    then show "P2 \<le> cp * (cp * Y)" using P2(2) by simp
  qed
  have S: "cm * cm * (X + Y) \<le> P1 + P2" "P1 + P2 \<le> cp * cp * (X + Y)"
    using P1X P2Y by (simp_all add: algebra_simps)
  have P2pos: "1 / 2 ^ 52 \<le> P2"
  proof -
    have "1 / 2 ^ 52 \<le> cm * (1 / 2 ^ 50)" by (simp add: cm_def)
    also have "\<dots> \<le> cm * Y" using Ylo cm by (intro mult_left_mono) (simp_all add: Y_def)
    finally show ?thesis using P2(1) by simp
  qed
  have P1pos: "0 \<le> P1"
  proof -
    have "0 \<le> cm * (cm * X)" using cm XY by simp
    then show ?thesis using P1X(1) by simp
  qed
  have "2 powi (- 1022) \<le> P1 + P2" using tiny P2pos P1pos by linarith
  from binary64_relative [OF this]
  have Vb: "cm * (P1 + P2) \<le> V" "V \<le> cp * (P1 + P2)" by (simp_all add: V cm_def cp_def)
  have E: "X + Y = l1 + L * d" "X + Y = l2 - (1 - L) * d"
    by (simp_all add: X_def Y_def d_def algebra_simps)
  \<comment> \<open>below\<close>
  define K where "K = cm * cm * cm"
  define q :: real where "q = 1 + 1 / 2 ^ 50"
  have K: "0 \<le> K" using cm by (simp add: K_def)
  have Kq: "1 < K * q" using num_lo by (simp add: K_def q_def)
  have "l1 / 2 ^ 50 \<le> l2 / 2 ^ 50" using lt by (simp add: divide_right_mono)
  then have "l1 + l1 / 2 ^ 50 \<le> l1 + L * d" using Ld by linarith
  moreover have "l1 * q = l1 + l1 / 2 ^ 50" by (simp add: q_def distrib_left)
  ultimately have Elo: "l1 * q \<le> X + Y" by (simp only: E(1))
  have "cm * (cm * cm * (X + Y)) \<le> cm * (P1 + P2)"
    using S(1) cm by (intro mult_left_mono) simp_all
  moreover have "cm * (cm * cm * (X + Y)) = K * (X + Y)" by (simp add: K_def mult.assoc)
  ultimately have V1: "K * (X + Y) \<le> V" using Vb(1) by linarith
  have "K * (l1 * q) \<le> K * (X + Y)" using Elo K by (intro mult_left_mono) simp_all
  moreover have "l1 * 1 < l1 * (K * q)" using Kq pos(1) by (intro mult_strict_left_mono) simp_all
  moreover have "l1 * (K * q) = K * (l1 * q)" by (simp only: mult.left_commute)
  ultimately have below: "l1 < V" using V1 by linarith
  \<comment> \<open>above\<close>
  define H where "H = cp * cp * cp"
  define r :: real where "r = 1 - 1 / 2 ^ 50"
  have H: "0 \<le> H" using cp by (simp add: H_def)
  have Hr: "H * r < 1" using num_hi by (simp add: H_def r_def)
  have "l2 * r = l2 - l2 / 2 ^ 50" by (simp add: r_def right_diff_distrib)
  moreover have "l2 - (1 - L) * d \<le> l2 - l2 / 2 ^ 50" using Md by linarith
  ultimately have Ehi: "X + Y \<le> l2 * r" by (simp only: E(2))
  have "cp * (P1 + P2) \<le> cp * (cp * cp * (X + Y))"
    using S(2) cp by (intro mult_left_mono) simp_all
  moreover have "cp * (cp * cp * (X + Y)) = H * (X + Y)" by (simp add: H_def mult.assoc)
  ultimately have V2: "V \<le> H * (X + Y)" using Vb(2) by linarith
  have "H * (X + Y) \<le> H * (l2 * r)" using Ehi H by (intro mult_left_mono) simp_all
  moreover have "l2 * (H * r) < l2 * 1" using Hr pos(2) by (intro mult_strict_left_mono) simp_all
  moreover have "l2 * (H * r) = H * (l2 * r)" by (simp only: mult.left_commute)
  ultimately have above: "V < l2" using V2 by linarith
  from below above show ?thesis by simp
qed


lemma findBracket_None_below:
  "\<forall>x \<in> set xs. w \<le> x \<Longrightarrow> findBracket w xs = None"
  by (induction w xs rule: findBracket.induct) auto

lemma findBracket_None_above:
  "\<forall>x \<in> set xs. x \<le> w \<Longrightarrow> findBracket w xs = None"
  by (induction w xs rule: findBracket.induct) auto

lemma findBracket_Some:
  "sorted xs \<Longrightarrow> xs \<noteq> [] \<Longrightarrow> hd xs < w \<Longrightarrow> w < last xs \<Longrightarrow> w \<notin> set xs \<Longrightarrow>
   \<exists>a b. findBracket w xs = Some (a, b) \<and> a \<in> set xs \<and> b \<in> set xs \<and> a < w \<and> w < b"
proof (induction w xs rule: findBracket.induct)
  case (1 w b1 b2 bands)
  show ?case
  proof (cases "b1 < w \<and> w < b2")
    case True
    then show ?thesis by simp
  next
    case False
    with 1 have lo: "b2 < w" by auto
    have "\<exists>a b. findBracket w (b2 # bands) = Some (a, b) \<and> a \<in> set (b2 # bands) \<and>
             b \<in> set (b2 # bands) \<and> a < w \<and> w < b"
      using False 1 lo by (intro "1.IH") auto
    with False show ?thesis by auto
  qed
qed simp_all

lemma findCaratBands_below:
  assumes len: "2 \<le> length bands" and below: "\<forall>b \<in> set bands. w < b"
  shows "findCaratBands w bands = Inr (Some (sort bands ! 0), Some (sort bands ! 1))"
proof -
  have notin: "w \<notin> set (sort bands)" using below by auto
  have none: "findBracket w (sort bands) = None"
    using below by (intro findBracket_None_below) auto
  have pos: "0 < length bands" "1 < length bands" "bands \<noteq> []" using len by auto
  have "sort bands ! 0 \<in> set bands"
    using pos(1) by (metis nth_mem set_sort length_sort)
  then have lt: "w < sort bands ! 0" using below by blast
  show ?thesis
    using notin none pos lt
    by (simp add: findCaratBands_def Let_def elemAt_def lessThan_js_def)
qed

lemma findCaratBands_above:
  assumes len: "2 \<le> length bands" and above: "\<forall>b \<in> set bands. b < w"
  shows "findCaratBands w bands =
           Inr (Some (sort bands ! (length bands - 2)), Some (sort bands ! (length bands - 1)))"
proof -
  have notin: "w \<notin> set (sort bands)" using above by auto
  have none: "findBracket w (sort bands) = None"
    using above by (intro findBracket_None_above) auto
  have pos: "0 < length bands" "1 < length bands" "bands \<noteq> []" using len by auto
  have mem: "\<And>i. i < length bands \<Longrightarrow> sort bands ! i \<in> set bands"
    by (metis nth_mem set_sort length_sort)
  have "sort bands ! 0 \<in> set bands" using mem pos(1) by blast
  then have nlt: "\<not> w < sort bands ! 0" using above by fastforce
  have "sort bands ! (length bands - 1) \<in> set bands" using mem [of "length bands - 1"] pos by simp
  then have gt: "sort bands ! (length bands - 1) < w" using above by blast
  have idx: "nat (int (length bands) - 1) = length bands - 1"
            "nat (int (length bands) - 2) = length bands - 2"
    using len by auto
  show ?thesis
    using notin none pos nlt gt len
    by (simp add: findCaratBands_def Let_def elemAt_def lessThan_js_def greaterThan_js_def idx)
qed

lemma sorted_hd_least: "sorted ys \<Longrightarrow> y \<in> set ys \<Longrightarrow> hd ys \<le> y"
  by (cases ys) auto

lemma sorted_last_greatest: "sorted ys \<Longrightarrow> y \<in> set ys \<Longrightarrow> y \<le> last ys"
  by (induction ys) (auto split: if_splits)

lemma findCaratBands_answers:
  assumes len: "2 \<le> length bands"
  shows "\<exists>b1 b2. findCaratBands w bands = Inr (Some b1, Some b2) \<and> b1 \<in> set bands \<and> b2 \<in> set bands"
proof -
  let ?sb = "sort bands"
  have "bands \<noteq> []" using len by auto
  then have ne: "?sb \<noteq> []" by (metis length_sort length_0_conv)
  have mem: "\<And>i. i < length bands \<Longrightarrow> ?sb ! i \<in> set bands"
    by (metis nth_mem set_sort length_sort)
  have ends: "?sb ! 0 \<in> set bands" "?sb ! 1 \<in> set bands"
    "?sb ! (length bands - 2) \<in> set bands" "?sb ! (length bands - 1) \<in> set bands"
    using len by (auto intro!: mem)
  consider (exact) "w \<in> set bands" | (below) "\<forall>b \<in> set bands. w < b"
    | (above) "\<forall>b \<in> set bands. b < w"
    | (inside) "w \<notin> set bands" "\<exists>b \<in> set bands. b \<le> w" "\<exists>b \<in> set bands. w \<le> b"
    by fastforce
  then show ?thesis
  proof cases
    case exact
    then show ?thesis by (simp add: findCaratBands_def Let_def)
  next
    case below
    show ?thesis
      using findCaratBands_below [OF len below] ends by simp
  next
    case above
    show ?thesis
      using findCaratBands_above [OF len above] ends by simp
  next
    case inside
    from inside obtain lo hi where lo: "lo \<in> set bands" "lo < w" and hi: "hi \<in> set bands" "w < hi"
      by (metis order_less_le)
    have "hd ?sb \<le> lo" using lo by (intro sorted_hd_least) auto
    then have h: "hd ?sb < w" using lo by simp
    have "hi \<le> last ?sb" using hi by (intro sorted_last_greatest) auto
    then have l: "w < last ?sb" using hi by simp
    have "\<exists>a b. findBracket w ?sb = Some (a, b) \<and> a \<in> set ?sb \<and> b \<in> set ?sb \<and> a < w \<and> w < b"
      using ne h l inside(1) by (intro findBracket_Some) auto
    then obtain a b where "findBracket w ?sb = Some (a, b)" "a \<in> set bands" "b \<in> set bands"
      by auto
    then show ?thesis using inside(1) by (simp add: findCaratBands_def Let_def)
  qed
qed

lemma toUpperCase_upper: "ch \<le> CHR ''Z'' \<Longrightarrow> toUpperCase [ch] = [ch]"
proof -
  assume a: "ch \<le> CHR ''Z''"
  have "CHR ''Z'' < CHR ''a''" by simp
  with a have "\<not> CHR ''a'' \<le> ch" by (meson leD le_less_trans)
  then show ?thesis by (simp add: toUpperCase_def toUpperCase_char_def)
qed

lemma colorMap_single: "map_of colorMap [ch] = None"
  by (simp add: colorMap_def)

lemma normalizeColorGrade_clamp:
  assumes "grades \<noteq> []"
  shows "normalizeColorGrade g (Some grades) =
           (let n = (case map_of colorMap g of Some grade \<Rightarrow> grade | None \<Rightarrow> toUpperCase g);
                n1 = (if n < hd grades then hd grades else n)
            in if last grades < n1 then last grades else n1)"
  using assms by (simp add: normalizeColorGrade_def Let_def)

lemma fetchCached_valid:
  "\<not> forceRefresh \<Longrightarrow> cell = Some entry \<Longrightarrow> nowCheck < expiresAt entry \<Longrightarrow>
   fetchCached key forceRefresh nowCheck nowStore response cell =
     \<lparr>returned = Inr (data entry), item = cell, requested = False\<rparr>"
  by (simp add: fetchCached_def isCacheValid_def)

lemma fetchCached_ok:
  "forceRefresh \<or> \<not> isCacheValid nowCheck cell \<Longrightarrow>
   fetchCached key forceRefresh nowCheck nowStore (Ok payload) cell =
     \<lparr>returned = Inr payload,
      item = Some \<lparr>data = payload, timestamp = nowStore,
                   expiresAt = nowStore + 24 * 60 * 60 * 1000\<rparr>,
      requested = True\<rparr>"
  by (auto simp add: fetchCached_def createCacheEntry_def CACHE_EXPIRY_HOURS_def)

lemma fetchCached_stale:
  "failed response \<Longrightarrow> cell = Some entry \<Longrightarrow>
   returned (fetchCached key forceRefresh nowCheck nowStore response cell) = Inr (data entry) \<and>
   item (fetchCached key forceRefresh nowCheck nowStore response cell) = cell"
  by (cases response) (auto simp add: fetchCached_def failed_def isCacheValid_def)

lemma fetchCached_no_data:
  "failed response \<Longrightarrow>
   fetchCached key forceRefresh nowCheck nowStore response None =
     \<lparr>returned = Inl (NoCachedData key), item = None, requested = True\<rparr>"
  by (cases response) (auto simp add: fetchCached_def failed_def isCacheValid_def)

lemma fetchCached_rejects_iff:
  "(\<exists>e. returned (fetchCached key False nowCheck nowStore response cell) = Inl e) \<longleftrightarrow>
   failed response \<and> cell = None"
  by (cases response; cases cell)
     (auto simp add: fetchCached_def failed_def isCacheValid_def)

lemma fetchCached_error:
  "returned (fetchCached key forceRefresh nowCheck nowStore response cell) = Inl e \<Longrightarrow>
   e = NoCachedData key"
  by (cases response; cases cell)
     (auto simp add: fetchCached_def failed_def isCacheValid_def split: if_splits)

lemma fetchPriceMatrix_storage:
  "indexItem (storageAfter (fetchPriceMatrix f c t r storage)) = indexItem storage \<and>
   depthItem (storageAfter (fetchPriceMatrix f c t r storage)) = depthItem storage"
  by (simp add: fetchPriceMatrix_def Let_def)

lemma fetchDCXIndex_storage:
  "matrixItem (storageAfter (fetchDCXIndex f c t r storage)) = matrixItem storage \<and>
   depthItem (storageAfter (fetchDCXIndex f c t r storage)) = depthItem storage"
  by (simp add: fetchDCXIndex_def Let_def)

lemma fetchAll_rejects_iff:
  "(\<exists>e. fst (fetchAll clock net storage) = Inl e) \<longleftrightarrow>
     (failed (matrixResponse net) \<and> matrixItem storage = None) \<or>
     (failed (indexResponse net) \<and> indexItem storage = None) \<or>
     (failed (depthResponse net) \<and> depthItem storage = None)"
proof -
  let ?m = "fetchPriceMatrix False (fst (clock MATRIX)) (snd (clock MATRIX))
              (matrixResponse net) storage"
  let ?i = "fetchDCXIndex False (fst (clock INDEX)) (snd (clock INDEX))
              (indexResponse net) (storageAfter ?m)"
  let ?d = "fetchMarketDepth False (fst (clock DEPTH)) (snd (clock DEPTH))
              (depthResponse net) (storageAfter ?i)"
  have m: "(\<exists>e. result ?m = Inl e) \<longleftrightarrow> failed (matrixResponse net) \<and> matrixItem storage = None"
    using fetchCached_rejects_iff [of MATRIX _ _ "matrixResponse net" "matrixItem storage"]
    by (simp add: fetchPriceMatrix_def Let_def)
  have i: "(\<exists>e. result ?i = Inl e) \<longleftrightarrow> failed (indexResponse net) \<and> indexItem storage = None"
    using fetchCached_rejects_iff [of INDEX _ _ "indexResponse net" "indexItem storage"]
      fetchPriceMatrix_storage [of False _ _ "matrixResponse net" storage]
    by (simp add: fetchDCXIndex_def Let_def)
  have d: "(\<exists>e. result ?d = Inl e) \<longleftrightarrow> failed (depthResponse net) \<and> depthItem storage = None"
    using fetchCached_rejects_iff [of DEPTH _ _ "depthResponse net" "depthItem storage"]
      fetchPriceMatrix_storage [of False _ _ "matrixResponse net" storage]
      fetchDCXIndex_storage [of False _ _ "indexResponse net" "storageAfter ?m"]
    by (simp add: fetchMarketDepth_def Let_def)
  have "(\<exists>e. fst (fetchAll clock net storage) = Inl e) \<longleftrightarrow>
        (\<exists>e. result ?m = Inl e) \<or> (\<exists>e. result ?i = Inl e) \<or> (\<exists>e. result ?d = Inl e)"
    by (auto simp add: fetchAll_def Let_def split: sum.splits)
  with m i d show ?thesis by simp
qed

lemma fetchAll_error:
  "fst (fetchAll clock net storage) = Inl e \<Longrightarrow> \<exists>key. e = NoCachedData key"
  by (auto simp add: fetchAll_def Let_def fetchPriceMatrix_def fetchDCXIndex_def
      fetchMarketDepth_def split: sum.splits dest: fetchCached_error)

lemma calculateDiamondPrice_fetchAll:
  "calculateDiamondPrice priceFromData clock net storage =
     ((case fst (fetchAll clock net storage) of
         Inl e \<Rightarrow> Inl (FailedToCalculatePrice e)
       | Inr (matrixData, indexData, depthData) \<Rightarrow>
           (case priceFromData matrixData indexData depthData of
              Inl e \<Rightarrow> Inl (FailedToCalculatePrice e)
            | Inr quote \<Rightarrow> Inr quote)),
      snd (fetchAll clock net storage))"
  by (auto simp add: calculateDiamondPrice_def split: prod.splits sum.splits)

lemma fetchAll_payloads:
  assumes "fst (fetchAll clock net storage) = Inr (m, i, d)"
  shows "(failed (matrixResponse net) \<and> matrixItem storage = Some cachedMatrix \<longrightarrow>
            m = data cachedMatrix) \<and>
         (failed (indexResponse net) \<and> indexItem storage = Some cachedIndex \<longrightarrow>
            i = data cachedIndex) \<and>
         (failed (depthResponse net) \<and> depthItem storage = Some cachedDepth \<longrightarrow>
            d = data cachedDepth)"
proof -
  let ?m = "fetchPriceMatrix False (fst (clock MATRIX)) (snd (clock MATRIX))
              (matrixResponse net) storage"
  let ?i = "fetchDCXIndex False (fst (clock INDEX)) (snd (clock INDEX))
              (indexResponse net) (storageAfter ?m)"
  let ?d = "fetchMarketDepth False (fst (clock DEPTH)) (snd (clock DEPTH))
              (depthResponse net) (storageAfter ?i)"
  from assms have r: "result ?m = Inr m" "result ?i = Inr i" "result ?d = Inr d"
    by (auto simp add: fetchAll_def Let_def split: sum.splits)
  have sm: "indexItem (storageAfter ?m) = indexItem storage"
    using fetchPriceMatrix_storage by blast
  have sd: "depthItem (storageAfter ?i) = depthItem storage"
    using fetchPriceMatrix_storage fetchDCXIndex_storage by metis
  have "m = data cachedMatrix"
    if "failed (matrixResponse net)" "matrixItem storage = Some cachedMatrix"
    using fetchCached_stale [OF that, of MATRIX False] r(1)
    by (simp add: fetchPriceMatrix_def Let_def)
  moreover have "i = data cachedIndex"
    if "failed (indexResponse net)" "indexItem storage = Some cachedIndex"
    using fetchCached_stale [OF that(1), of "indexItem (storageAfter ?m)" cachedIndex INDEX False]
      r(2) sm that(2)
    by (simp add: fetchDCXIndex_def Let_def)
  moreover have "d = data cachedDepth"
    if "failed (depthResponse net)" "depthItem storage = Some cachedDepth"
    using fetchCached_stale [OF that(1), of "depthItem (storageAfter ?i)" cachedDepth DEPTH False]
      r(3) sd that(2)
    by (simp add: fetchMarketDepth_def Let_def)
  ultimately show ?thesis by blast
qed

section \<open>Claims\<close>




text \<open>
  C2. For each of the three fetch operations, whatever \<open>forceRefresh\<close>, the clock and the
  expiry of the entry are: when the request fails and the storage holds an entry for the
  key, the operation returns the payload of that entry; when the request fails and the
  storage holds no entry, it throws the "no cached data available" error of its dataset.
  For the quote: when for some dataset the request fails and no entry is stored, the quote
  is rejected with such an error; otherwise the retrieval succeeds, the quote is what the
  computation on the three retrieved payloads gives, and a dataset whose request failed
  contributes the payload of its stored entry.
\<close>

theorem stale_cache_fallback:
  "(failed matrixResp \<and> matrixItem storage = Some cachedMatrix \<longrightarrow>
      result (fetchPriceMatrix forceRefresh nowCheck nowStore matrixResp storage) =
        Inr (data cachedMatrix)) \<and>
   (failed indexResp \<and> indexItem storage = Some cachedIndex \<longrightarrow>
      result (fetchDCXIndex forceRefresh nowCheck nowStore indexResp storage) =
        Inr (data cachedIndex)) \<and>
   (failed depthResp \<and> depthItem storage = Some cachedDepth \<longrightarrow>
      result (fetchMarketDepth forceRefresh nowCheck nowStore depthResp storage) =
        Inr (data cachedDepth)) \<and>
   (failed matrixResp \<and> matrixItem storage = None \<longrightarrow>
      result (fetchPriceMatrix forceRefresh nowCheck nowStore matrixResp storage) =
        Inl (NoCachedData MATRIX)) \<and>
   (failed indexResp \<and> indexItem storage = None \<longrightarrow>
      result (fetchDCXIndex forceRefresh nowCheck nowStore indexResp storage) =
        Inl (NoCachedData INDEX)) \<and>
   (failed depthResp \<and> depthItem storage = None \<longrightarrow>
      result (fetchMarketDepth forceRefresh nowCheck nowStore depthResp storage) =
        Inl (NoCachedData DEPTH)) \<and>
   ((failed (matrixResponse net) \<and> matrixItem storage = None) \<or>
    (failed (indexResponse net) \<and> indexItem storage = None) \<or>
    (failed (depthResponse net) \<and> depthItem storage = None) \<longrightarrow>
      (\<exists>key. fst (calculateDiamondPrice priceFromData clock net storage) =
               Inl (FailedToCalculatePrice (NoCachedData key)))) \<and>
   (\<not> ((failed (matrixResponse net) \<and> matrixItem storage = None) \<or>
       (failed (indexResponse net) \<and> indexItem storage = None) \<or>
       (failed (depthResponse net) \<and> depthItem storage = None)) \<longrightarrow>
      (\<exists>m i d.
         fst (fetchAll clock net storage) = Inr (m, i, d) \<and>
         fst (calculateDiamondPrice priceFromData clock net storage) =
           (case priceFromData m i d of
              Inl e \<Rightarrow> Inl (FailedToCalculatePrice e)
            | Inr quote \<Rightarrow> Inr quote) \<and>
         (failed (matrixResponse net) \<and> matrixItem storage = Some cachedMatrix \<longrightarrow>
            m = data cachedMatrix) \<and>
         (failed (indexResponse net) \<and> indexItem storage = Some cachedIndex \<longrightarrow>
            i = data cachedIndex) \<and>
         (failed (depthResponse net) \<and> depthItem storage = Some cachedDepth \<longrightarrow>
            d = data cachedDepth)))"
proof -
  let ?unavailable = "(failed (matrixResponse net) \<and> matrixItem storage = None) \<or>
    (failed (indexResponse net) \<and> indexItem storage = None) \<or>
    (failed (depthResponse net) \<and> depthItem storage = None)"
  have m1: "failed matrixResp \<and> matrixItem storage = Some cachedMatrix \<longrightarrow>
      result (fetchPriceMatrix forceRefresh nowCheck nowStore matrixResp storage) =
        Inr (data cachedMatrix)"
    using fetchCached_stale [of matrixResp "matrixItem storage" cachedMatrix MATRIX]
    by (simp add: fetchPriceMatrix_def Let_def)
  have i1: "failed indexResp \<and> indexItem storage = Some cachedIndex \<longrightarrow>
      result (fetchDCXIndex forceRefresh nowCheck nowStore indexResp storage) =
        Inr (data cachedIndex)"
    using fetchCached_stale [of indexResp "indexItem storage" cachedIndex INDEX]
    by (simp add: fetchDCXIndex_def Let_def)
  have d1: "failed depthResp \<and> depthItem storage = Some cachedDepth \<longrightarrow>
      result (fetchMarketDepth forceRefresh nowCheck nowStore depthResp storage) =
        Inr (data cachedDepth)"
    using fetchCached_stale [of depthResp "depthItem storage" cachedDepth DEPTH]
    by (simp add: fetchMarketDepth_def Let_def)
  have m2: "failed matrixResp \<and> matrixItem storage = None \<longrightarrow>
      result (fetchPriceMatrix forceRefresh nowCheck nowStore matrixResp storage) =
        Inl (NoCachedData MATRIX)"
    by (simp add: fetchPriceMatrix_def Let_def fetchCached_no_data)
  have i2: "failed indexResp \<and> indexItem storage = None \<longrightarrow>
      result (fetchDCXIndex forceRefresh nowCheck nowStore indexResp storage) =
        Inl (NoCachedData INDEX)"
    by (simp add: fetchDCXIndex_def Let_def fetchCached_no_data)
  have d2: "failed depthResp \<and> depthItem storage = None \<longrightarrow>
      result (fetchMarketDepth forceRefresh nowCheck nowStore depthResp storage) =
        Inl (NoCachedData DEPTH)"
    by (simp add: fetchMarketDepth_def Let_def fetchCached_no_data)
  have qa: "\<exists>key. fst (calculateDiamondPrice priceFromData clock net storage) =
               Inl (FailedToCalculatePrice (NoCachedData key))" if ?unavailable
  proof -
    from that obtain e where e: "fst (fetchAll clock net storage) = Inl e"
      using fetchAll_rejects_iff [of clock net storage] by blast
    then obtain key where "e = NoCachedData key" using fetchAll_error by blast
    with e show ?thesis by (simp add: calculateDiamondPrice_fetchAll)
  qed
  have qb: "\<exists>m i d.
         fst (fetchAll clock net storage) = Inr (m, i, d) \<and>
         fst (calculateDiamondPrice priceFromData clock net storage) =
           (case priceFromData m i d of
              Inl e \<Rightarrow> Inl (FailedToCalculatePrice e)
            | Inr quote \<Rightarrow> Inr quote) \<and>
         (failed (matrixResponse net) \<and> matrixItem storage = Some cachedMatrix \<longrightarrow>
            m = data cachedMatrix) \<and>
         (failed (indexResponse net) \<and> indexItem storage = Some cachedIndex \<longrightarrow>
            i = data cachedIndex) \<and>
         (failed (depthResponse net) \<and> depthItem storage = Some cachedDepth \<longrightarrow>
            d = data cachedDepth)" if "\<not> ?unavailable"
  proof -
    from that have "\<not> (\<exists>e. fst (fetchAll clock net storage) = Inl e)"
      using fetchAll_rejects_iff [of clock net storage] by blast
    then obtain m i d where r: "fst (fetchAll clock net storage) = Inr (m, i, d)"
      by (metis sum.exhaust prod_cases3)
    have "fst (calculateDiamondPrice priceFromData clock net storage) =
           (case priceFromData m i d of
              Inl e \<Rightarrow> Inl (FailedToCalculatePrice e)
            | Inr quote \<Rightarrow> Inr quote)"
      using r by (simp add: calculateDiamondPrice_fetchAll)
    with r fetchAll_payloads [OF r, of cachedMatrix cachedIndex cachedDepth] show ?thesis
      by blast
  qed
  show ?thesis using m1 i1 d1 m2 i2 d2 qa qb by blast
qed

theorem stale_cache_fallback_witness:
  "failed (matrixResponse offline) \<and> failed (indexResponse offline) \<and>
   failed (depthResponse offline) \<and>
   result (fetchPriceMatrix False 90000000 90000001 (matrixResponse offline) expiredStorage) =
     Inr scenarioMatrix \<and>
   result (fetchDCXIndex True 5 6 (indexResponse offline) expiredStorage) = Inr scenarioIndex \<and>
   result (fetchMarketDepth False 90000000 90000001 (depthResponse offline) expiredStorage) =
     Inr scenarioDepth \<and>
   result (fetchPriceMatrix False 5 6 (matrixResponse offline) emptyStorage) =
     Inl (NoCachedData MATRIX) \<and>
   (\<exists>key. fst (calculateDiamondPrice (\<lambda>m i d. Inr (dcx i)) (\<lambda>key. (5, 6)) offline emptyStorage) =
      Inl (FailedToCalculatePrice (NoCachedData key))) \<and>
   fst (calculateDiamondPrice (\<lambda>m i d. Inr (dcx i)) (\<lambda>key. (90000000, 90000001)) offline
          expiredStorage) = Inr 8000"
  using
    stale_cache_fallback [of "matrixResponse offline" expiredStorage
      "\<lparr>data = scenarioMatrix, timestamp = 0, expiresAt = 86400000\<rparr>"
      False 90000000 90000001 "indexResponse offline"
      "\<lparr>data = scenarioIndex, timestamp = 0, expiresAt = 86400000\<rparr>"
      "depthResponse offline"
      "\<lparr>data = scenarioDepth, timestamp = 0, expiresAt = 86400000\<rparr>"
      offline "\<lambda>m i d. Inr (dcx i)" "\<lambda>key. (90000000, 90000001)"]
    stale_cache_fallback [of "matrixResponse offline" expiredStorage
      "\<lparr>data = scenarioMatrix, timestamp = 0, expiresAt = 86400000\<rparr>"
      True 5 6 "indexResponse offline"
      "\<lparr>data = scenarioIndex, timestamp = 0, expiresAt = 86400000\<rparr>"
      "depthResponse offline"
      "\<lparr>data = scenarioDepth, timestamp = 0, expiresAt = 86400000\<rparr>"
      offline "\<lambda>m i d. Inr (dcx i)" "\<lambda>key. (5, 6)"]
    stale_cache_fallback [of "matrixResponse offline" emptyStorage _
      False 5 6 "indexResponse offline" _ "depthResponse offline" _
      offline "\<lambda>m i d. Inr (dcx i)" "\<lambda>key. (5, 6)"]
  by (auto simp add: offline_def expiredStorage_def emptyStorage_def failed_def
      scenarioIndex_def)

text \<open>
  C3. \<open>getMarketDepth\<close> reads three nested maps in order: depth by colour and clarity,
  depth by carat and clarity under the key \<open>toString caratWeight\<close>, depth by carat and
  colour under the same key. A lookup resolves when it finds a count other than 0
  (\<open>truthy\<close>); the result is the count of the first lookup that resolves. A map or key
  missing at any level makes the lookup \<open>undefined\<close>, never an error. When none resolves
  the depth is 0, and the confidence computed from that depth carries the penalty of 15.
\<close>

theorem marketDepth_fallback_order:
  "(\<forall>v. lookup2 (colclar d) colorGrade clarityGrade = Some v \<and> v \<noteq> 0 \<longrightarrow>
        getMarketDepth toString d w colorGrade clarityGrade = v) \<and>
   (\<forall>v. \<not> truthy (lookup2 (colclar d) colorGrade clarityGrade) \<and>
        lookup2 (clarity d) (toString w) clarityGrade = Some v \<and> v \<noteq> 0 \<longrightarrow>
        getMarketDepth toString d w colorGrade clarityGrade = v) \<and>
   (\<forall>v. \<not> truthy (lookup2 (colclar d) colorGrade clarityGrade) \<and>
        \<not> truthy (lookup2 (clarity d) (toString w) clarityGrade) \<and>
        lookup2 (color d) (toString w) colorGrade = Some v \<and> v \<noteq> 0 \<longrightarrow>
        getMarketDepth toString d w colorGrade clarityGrade = v) \<and>
   (\<not> truthy (lookup2 (colclar d) colorGrade clarityGrade) \<and>
    \<not> truthy (lookup2 (clarity d) (toString w) clarityGrade) \<and>
    \<not> truthy (lookup2 (color d) (toString w) colorGrade) \<longrightarrow>
      getMarketDepth toString d w colorGrade clarityGrade = 0 \<and>
      calculateConfidence hasExactCaratBand (getMarketDepth toString d w colorGrade clarityGrade)
          dataAgeHours =
        100 - (if hasExactCaratBand then 0 else 10) - 15
          - (if dataAgeHours > 12 then 10 else if dataAgeHours > 6 then 5 else 0)) \<and>
   (\<forall>x. truthy x \<longleftrightarrow> (\<exists>v. x = Some v \<and> v \<noteq> 0)) \<and>
   (\<forall>k1 k2. lookup2 None k1 k2 = None) \<and>
   (\<forall>outer k1 k2. outer k1 = None \<longrightarrow> lookup2 (Some outer) k1 k2 = None) \<and>
   (\<forall>outer inner k1 k2. outer k1 = Some inner \<and> inner k2 = None \<longrightarrow>
        lookup2 (Some outer) k1 k2 = None)"
  by (auto simp add: getMarketDepth_def Let_def truthy_def numberOf_def lookup2_def
      calculateConfidence_def penalizedConfidence_def split: option.splits)

theorem marketDepth_fallback_order_witness:
  "lookup2 (colclar scenarioDepth) ''G'' ''VS2'' = Some 120 \<and>
   getMarketDepth (\<lambda>w. ''1.25'') scenarioDepth (5 / 4) ''G'' ''VS2'' = 120 \<and>
   \<not> truthy (lookup2 (colclar byCaratDepth) ''G'' ''VS2'') \<and>
   lookup2 (clarity byCaratDepth) ''1.25'' ''VS2'' = Some 40 \<and>
   getMarketDepth (\<lambda>w. ''1.25'') byCaratDepth (5 / 4) ''G'' ''VS2'' = 40 \<and>
   \<not> truthy (lookup2 (colclar noDepth) ''G'' ''VS2'') \<and>
   \<not> truthy (lookup2 (clarity noDepth) ''1.25'' ''VS2'') \<and>
   \<not> truthy (lookup2 (color noDepth) ''1.25'' ''G'') \<and>
   getMarketDepth (\<lambda>w. ''1.25'') noDepth (5 / 4) ''G'' ''VS2'' = 0 \<and>
   calculateConfidence False (getMarketDepth (\<lambda>w. ''1.25'') noDepth (5 / 4) ''G'' ''VS2'') 0 = 75"
  using
    marketDepth_fallback_order [of scenarioDepth "''G''" "''VS2''" "\<lambda>w. ''1.25''" "5 / 4" False 0]
    marketDepth_fallback_order [of byCaratDepth "''G''" "''VS2''" "\<lambda>w. ''1.25''" "5 / 4" False 0]
    marketDepth_fallback_order [of noDepth "''G''" "''VS2''" "\<lambda>w. ''1.25''" "5 / 4" False 0]
  by (simp add: scenarioDepth_def byCaratDepth_def noDepth_def lookup2_def truthy_def
      calculateConfidence_def penalizedConfidence_def)

text \<open>
  C4, as amended. For every carat weight and every list of at least two carat bands: a
  weight below the lowest band gets the two lowest bands (the first two of the bands in
  ascending order), a weight above the highest band gets the two highest, and for every
  weight \<open>findCaratBands\<close> returns a pair of bands of the list and does not throw.
\<close>

theorem findCaratBands_extrapolates:
  assumes "2 \<le> length bands"
  shows "(w < Min (set bands) \<longrightarrow>
            findCaratBands w bands = Inr (Some (sort bands ! 0), Some (sort bands ! 1))) \<and>
         (Max (set bands) < w \<longrightarrow>
            findCaratBands w bands =
              Inr (Some (sort bands ! (length bands - 2)), Some (sort bands ! (length bands - 1)))) \<and>
         (\<exists>b1 b2. findCaratBands w bands = Inr (Some b1, Some b2) \<and>
                   b1 \<in> set bands \<and> b2 \<in> set bands)"
proof -
  have ne: "set bands \<noteq> {}" using assms by auto
  have below: "w < Min (set bands) \<Longrightarrow> \<forall>b \<in> set bands. w < b"
    using ne by (simp add: Min_gr_iff)
  have above: "Max (set bands) < w \<Longrightarrow> \<forall>b \<in> set bands. b < w"
    using ne by (simp add: Max_less_iff)
  show ?thesis
    using findCaratBands_below [OF assms] findCaratBands_above [OF assms]
      findCaratBands_answers [OF assms] below above
    by blast
qed

theorem findCaratBands_extrapolates_witness:
  "2 \<le> length [1, 3 / 2, 2 :: real] \<and>
   (1 / 2 < Min (set [1, 3 / 2, 2 :: real]) \<and>
    findCaratBands (1 / 2) [1, 3 / 2, 2] = Inr (Some 1, Some (3 / 2))) \<and>
   (Max (set [1, 3 / 2, 2 :: real]) < 3 \<and>
    findCaratBands 3 [1, 3 / 2, 2] = Inr (Some (3 / 2), Some 2))"
  using findCaratBands_extrapolates [of "[1, 3 / 2, 2]" "1 / 2"]
    findCaratBands_extrapolates [of "[1, 3 / 2, 2]" 3]
  by simp

text \<open>
  C4, the claim as stated fails on a list of one band: the weight 0.5 lies below the only
  band 1.0, and \<open>findCaratBands\<close> returns the band together with \<open>undefined\<close>
  (\<open>bands[1]\<close> of a one-element array), not two bands.
\<close>

theorem findCaratBands_single_band_counterexample:
  "(1 / 2 :: real) < Min (set [1]) \<and> findCaratBands (1 / 2) [1] = Inr (Some 1, None)"
  by (simp add: findCaratBands_def elemAt_def lessThan_js_def Let_def)

text \<open>
  C5. For a carat weight equal to one of the bands, \<open>findCaratBands\<close> returns that band
  twice, and \<open>interpolateLogPrice\<close> on that degenerate bracket returns \<open>lambda = 0\<close> and,
  as the interpolated log-price, the log-price it was given for the band, unchanged.
\<close>

theorem exact_band_no_interpolation:
  assumes "w \<in> set bands"
  shows "findCaratBands w bands = Inr (Some w, Some w) \<and>
         interpolateLogPrice logPrice1 logPrice2 w w w =
           \<lparr>interpolatedLogPrice = logPrice1, lambda = 0\<rparr>"
  using assms by (simp add: findCaratBands_def interpolateLogPrice_def Let_def)

theorem exact_band_no_interpolation_witness:
  "(1 :: real) \<in> set [1, 3 / 2] \<and>
   findCaratBands 1 [1, 3 / 2] = Inr (Some 1, Some 1) \<and>
   interpolateLogPrice 9 (47 / 5) 1 1 1 = \<lparr>interpolatedLogPrice = 9, lambda = 0\<rparr>"
  using exact_band_no_interpolation [of 1 "[1, 3 / 2]" 9 "47 / 5"]
  by simp

text \<open>
  C6, as amended. For two bands \<open>band1 < band2\<close> with log-prices \<open>1 \<le> logPrice1 < logPrice2\<close>
  and a carat weight strictly between the bands, \<open>interpolateLogPrice\<close> computes, in doubles,
  \<open>lambda = (w - band1) / (band2 - band1)\<close> and the log-price
  \<open>(1 - lambda) * logPrice1 + lambda * logPrice2\<close>. Whenever \<open>lambda * (logPrice2 - logPrice1)\<close>
  and \<open>(1 - lambda) * (logPrice2 - logPrice1)\<close>, for the \<open>lambda\<close> that the code computes, are
  both at least \<open>logPrice2 / 2^50\<close> (the weight is not within rounding distance of a band,
  and the log-prices are not within rounding distance of each other), the computed
  log-price lies strictly between \<open>logPrice1\<close> and \<open>logPrice2\<close>, and so its exponential lies
  strictly between the prices \<open>exp logPrice1\<close> and \<open>exp logPrice2\<close>. (\<open>exp\<close> is the exact
  exponential; the rounding of \<open>Math.exp\<close> is not modelled.)
\<close>

theorem log_interpolation_strictly_between:
  fixes logPrice1 logPrice2 w band1 band2 :: real
  assumes "band1 < w" and "w < band2" and "1 \<le> logPrice1" and "logPrice1 < logPrice2"
    and "logPrice2 / 2 ^ 50 \<le>
           lambda (interpolateLogPrice logPrice1 logPrice2 w band1 band2) *
             (logPrice2 - logPrice1)"
    and "logPrice2 / 2 ^ 50 \<le>
           (1 - lambda (interpolateLogPrice logPrice1 logPrice2 w band1 band2)) *
             (logPrice2 - logPrice1)"
  shows "lambda (interpolateLogPrice logPrice1 logPrice2 w band1 band2) =
           binary64 (binary64 (w - band1) / binary64 (band2 - band1)) \<and>
         interpolatedLogPrice (interpolateLogPrice logPrice1 logPrice2 w band1 band2) =
           binary64
             (binary64
                (binary64 (1 - lambda (interpolateLogPrice logPrice1 logPrice2 w band1 band2)) *
                 logPrice1) +
              binary64 (lambda (interpolateLogPrice logPrice1 logPrice2 w band1 band2) *
                        logPrice2)) \<and>
         logPrice1 < interpolatedLogPrice (interpolateLogPrice logPrice1 logPrice2 w band1 band2) \<and>
         interpolatedLogPrice (interpolateLogPrice logPrice1 logPrice2 w band1 band2) < logPrice2 \<and>
         exp logPrice1 <
           exp (interpolatedLogPrice (interpolateLogPrice logPrice1 logPrice2 w band1 band2)) \<and>
         exp (interpolatedLogPrice (interpolateLogPrice logPrice1 logPrice2 w band1 band2)) <
           exp logPrice2"
proof -
  define L where "L = binary64 (binary64 (w - band1) / binary64 (band2 - band1))"
  define V where
    "V = binary64 (binary64 (binary64 (1 - L) * logPrice1) + binary64 (L * logPrice2))"
  have ne: "band1 \<noteq> band2" using assms(1,2) by simp
  have i: "interpolateLogPrice logPrice1 logPrice2 w band1 band2 =
             \<lparr>interpolatedLogPrice = V, lambda = L\<rparr>"
    unfolding interpolateLogPrice_formula [OF ne] V_def L_def ..
  have lam: "lambda (interpolateLogPrice logPrice1 logPrice2 w band1 band2) = L"
    and val: "interpolatedLogPrice (interpolateLogPrice logPrice1 logPrice2 w band1 band2) = V"
    by (simp_all add: i)
  have m: "logPrice2 / 2 ^ 50 \<le> L * (logPrice2 - logPrice1)"
    "logPrice2 / 2 ^ 50 \<le> (1 - L) * (logPrice2 - logPrice1)"
    using assms(5,6) by (simp_all only: lam)
  have between: "logPrice1 < V \<and> V < logPrice2"
    unfolding V_def by (rule interpolation_within_margin [OF assms(3,4) m])
  then have "exp logPrice1 < exp V \<and> exp V < exp logPrice2" by simp
  with between show ?thesis
    unfolding lam val by (simp add: L_def V_def)
qed

theorem log_interpolation_strictly_between_witness:
  "(1 :: real) < 5 / 4 \<and> (5 / 4 :: real) < 3 / 2 \<and> (1 :: real) \<le> 9 \<and>
   (9 :: real) < 5291729562160333 / 562949953421312 \<and>
   lambda (interpolateLogPrice 9 (5291729562160333 / 562949953421312) (5 / 4) 1 (3 / 2)) = 1 / 2 \<and>
   (5291729562160333 / 562949953421312 :: real) / 2 ^ 50 \<le> 1 / 2 * (5291729562160333 / 562949953421312 - 9) \<and>
   9 < interpolatedLogPrice (interpolateLogPrice 9 (5291729562160333 / 562949953421312) (5 / 4) 1 (3 / 2)) \<and>
   interpolatedLogPrice (interpolateLogPrice 9 (5291729562160333 / 562949953421312) (5 / 4) 1 (3 / 2)) < 5291729562160333 / 562949953421312"
proof -
  have h: "(1 :: real) < 5 / 4" "(5 / 4 :: real) < 3 / 2" "(1 :: real) \<le> 9"
    "(9 :: real) < 5291729562160333 / 562949953421312"
    by simp_all
  have l: "lambda (interpolateLogPrice 9 (5291729562160333 / 562949953421312) (5 / 4) 1 (3 / 2)) = 1 / 2"
    by (simp add: interpolateLogPrice_scenario)
  have n: "(5291729562160333 / 562949953421312 :: real) / 2 ^ 50 \<le> 1 / 2 * (5291729562160333 / 562949953421312 - 9)"
    "(5291729562160333 / 562949953421312 :: real) / 2 ^ 50 \<le> (1 - 1 / 2) * (5291729562160333 / 562949953421312 - 9)"
    by simp_all
  have m: "(5291729562160333 / 562949953421312) / 2 ^ 50 \<le>
        lambda (interpolateLogPrice 9 (5291729562160333 / 562949953421312) (5 / 4) 1 (3 / 2)) * (5291729562160333 / 562949953421312 - 9)"
    "(5291729562160333 / 562949953421312) / 2 ^ 50 \<le>
        (1 - lambda (interpolateLogPrice 9 (5291729562160333 / 562949953421312) (5 / 4) 1 (3 / 2))) * (5291729562160333 / 562949953421312 - 9)"
    unfolding l by (rule n)+
  from h l n(1) log_interpolation_strictly_between [OF h m] show ?thesis by blast
qed

text \<open>
  C6, the claim as stated fails on the grid of the specification's scenario (bands 1.0 and
  1.5, log-prices 9.0 and the double nearest to 9.4): for the weight 1.0000000000000002,
  the double next above the band 1.0, the interpolated log-price is 9.0 itself, so the
  per-carat price is that of the band and not strictly above it.
\<close>

theorem log_interpolation_end_point_counterexample:
  "(1 :: real) < 4503599627370497 / 4503599627370496 \<and> (4503599627370497 / 4503599627370496 :: real) < 3 / 2 \<and>
   binary64 (4503599627370497 / 4503599627370496) = 4503599627370497 / 4503599627370496 \<and>
   binary64 (47 / 5) = 5291729562160333 / 562949953421312 \<and> (9 :: real) < 5291729562160333 / 562949953421312 \<and>
   interpolatedLogPrice (interpolateLogPrice 9 (5291729562160333 / 562949953421312) (4503599627370497 / 4503599627370496) 1 (3 / 2)) = 9"
proof -
  have "binary64 (4503599627370497 / 4503599627370496) = 4503599627370497 / 4503599627370496"
    by (simp add: binary64_def exponent2.simps roundTiesToEven_def Let_def)
  moreover have "binary64 (47 / 5) = 5291729562160333 / 562949953421312"
    by (simp add: binary64_def exponent2.simps roundTiesToEven_def Let_def)
  moreover have "interpolatedLogPrice (interpolateLogPrice 9 (5291729562160333 / 562949953421312) (4503599627370497 / 4503599627370496) 1 (3 / 2)) = 9"
    by (simp add: interpolateLogPrice_next_to_band)
  ultimately show ?thesis by simp
qed

text \<open>
  C7. For every input string and every non-empty list of row labels, the normalized colour
  grade lies between the least and the greatest row label in the order in which the source
  compares strings; when the first label does not sort after the last, it lies between the
  first label (\<open>minGrade\<close>) and the last (\<open>maxGrade\<close>). The input \<open>Z\<close> on a grid whose last
  label is \<open>M\<close> normalizes to \<open>M\<close>. \<open>normalizeColorGrade\<close> has no failing branch: it
  returns a string on every input.
\<close>

theorem normalizeColorGrade_within_grid:
  assumes "grades \<noteq> []"
  shows "Min (set grades) \<le> normalizeColorGrade g (Some grades) \<and>
         normalizeColorGrade g (Some grades) \<le> Max (set grades) \<and>
         (hd grades \<le> last grades \<longrightarrow>
            hd grades \<le> normalizeColorGrade g (Some grades) \<and>
            normalizeColorGrade g (Some grades) \<le> last grades) \<and>
         (last grades = ''M'' \<longrightarrow> normalizeColorGrade ''Z'' (Some grades) = ''M'')"
proof -
  have h: "hd grades \<in> set grades" and l: "last grades \<in> set grades"
    using assms by auto
  have lo: "Min (set grades) \<le> hd grades" "Min (set grades) \<le> last grades"
    using h l by auto
  have hi: "hd grades \<le> Max (set grades)" "last grades \<le> Max (set grades)"
    using h l by auto
  have bounds: "Min (set grades) \<le> normalizeColorGrade g (Some grades) \<and>
         normalizeColorGrade g (Some grades) \<le> Max (set grades) \<and>
         (hd grades \<le> last grades \<longrightarrow>
            hd grades \<le> normalizeColorGrade g (Some grades) \<and>
            normalizeColorGrade g (Some grades) \<le> last grades)"
    unfolding normalizeColorGrade_clamp [OF assms] Let_def using lo hi by auto
  have z: "normalizeColorGrade ''Z'' (Some grades) = ''M''" if m: "last grades = ''M''"
  proof -
    have n: "(case map_of colorMap ''Z'' of Some grade \<Rightarrow> grade | None \<Rightarrow> toUpperCase ''Z'') = ''Z''"
      using colorMap_single [of "CHR ''Z''"] toUpperCase_upper [of "CHR ''Z''"] by simp
    have mz: "(''M'' :: string) < ''Z''" by simp
    have tr: "''M'' < x" if "''Z'' < x" for x :: string
      using mz that by (rule less_trans)
    show ?thesis
      unfolding normalizeColorGrade_clamp [OF assms] Let_def n m using mz tr by auto
  qed
  show ?thesis using bounds z by blast
qed

theorem normalizeColorGrade_within_grid_witness:
  "[''D'', ''E'', ''M''] \<noteq> [] \<and> hd [''D'', ''E'', ''M''] \<le> last [''D'', ''E'', ''M''] \<and>
   last [''D'', ''E'', ''M''] = ''M'' \<and>
   ''D'' \<le> normalizeColorGrade ''Colorless'' (Some [''D'', ''E'', ''M'']) \<and>
   normalizeColorGrade ''Colorless'' (Some [''D'', ''E'', ''M'']) \<le> ''M'' \<and>
   normalizeColorGrade ''Z'' (Some [''D'', ''E'', ''M'']) = ''M''"
  using normalizeColorGrade_within_grid [of "[''D'', ''E'', ''M'']" "''Colorless''"]
  by simp

text \<open>
  C8. A single upper-case letter that lies between the first and the last row label of the
  grid is returned unchanged by \<open>normalizeColorGrade\<close>; without row labels every single
  upper-case letter is returned unchanged.
\<close>

theorem normalizeColorGrade_canonical_unchanged:
  assumes "CHR ''A'' \<le> ch" "ch \<le> CHR ''Z''" "grades \<noteq> []"
    "hd grades \<le> [ch]" "[ch] \<le> last grades"
  shows "normalizeColorGrade [ch] (Some grades) = [ch] \<and> normalizeColorGrade [ch] None = [ch]"
proof -
  have inside: "\<not> [ch] < hd grades" "\<not> last grades < [ch]"
    using assms(4) leD apply blast
    using assms(5) leD apply blast
    done
  show ?thesis
    using assms(2,3) inside
    by (simp add: normalizeColorGrade_def Let_def colorMap_single toUpperCase_upper)
qed

theorem normalizeColorGrade_canonical_unchanged_witness:
  "CHR ''A'' \<le> CHR ''G'' \<and> CHR ''G'' \<le> CHR ''Z'' \<and> [''D'', ''E'', ''M''] \<noteq> [] \<and>
   hd [''D'', ''E'', ''M''] \<le> ''G'' \<and> ''G'' \<le> last [''D'', ''E'', ''M''] \<and>
   normalizeColorGrade ''G'' (Some [''D'', ''E'', ''M'']) = ''G'' \<and>
   normalizeColorGrade ''G'' None = ''G''"
  using normalizeColorGrade_canonical_unchanged [of "CHR ''G''" "[''D'', ''E'', ''M'']"]
  by simp

text \<open>
  C9. An entry is valid exactly when the clock is before its expiry, and a missing entry is
  not valid. For each of the three fetch operations: with \<open>forceRefresh\<close> false and a
  stored entry whose expiry is later than the clock, the operation returns the payload of
  the entry, issues no request and leaves the storage as it is; when a request is made
  (\<open>forceRefresh\<close>, or no valid entry) and succeeds, the operation returns the fetched
  payload and the item of its key becomes the entry with that payload, the capture time
  \<open>nowStore\<close> and the expiry \<open>nowStore\<close> + 24 hours, in place of any earlier entry.
\<close>

theorem cache_serves_valid_and_stores_fresh:
  "(isCacheValid now (Some entry) \<longleftrightarrow> now < expiresAt entry) \<and>
   \<not> isCacheValid now (None :: 'a CachedData option) \<and>
   (matrixItem storage = Some cachedMatrix \<and> nowCheck < expiresAt cachedMatrix \<longrightarrow>
      fetchPriceMatrix False nowCheck nowStore matrixResp storage =
        \<lparr>result = Inr (data cachedMatrix), sentRequest = False, storageAfter = storage\<rparr>) \<and>
   (indexItem storage = Some cachedIndex \<and> nowCheck < expiresAt cachedIndex \<longrightarrow>
      fetchDCXIndex False nowCheck nowStore indexResp storage =
        \<lparr>result = Inr (data cachedIndex), sentRequest = False, storageAfter = storage\<rparr>) \<and>
   (depthItem storage = Some cachedDepth \<and> nowCheck < expiresAt cachedDepth \<longrightarrow>
      fetchMarketDepth False nowCheck nowStore depthResp storage =
        \<lparr>result = Inr (data cachedDepth), sentRequest = False, storageAfter = storage\<rparr>) \<and>
   (forceRefresh \<or> \<not> isCacheValid nowCheck (matrixItem storage) \<longrightarrow>
      fetchPriceMatrix forceRefresh nowCheck nowStore (Ok matrixData) storage =
        \<lparr>result = Inr matrixData, sentRequest = True,
         storageAfter = storage\<lparr>matrixItem :=
           Some \<lparr>data = matrixData, timestamp = nowStore,
                 expiresAt = nowStore + 24 * 60 * 60 * 1000\<rparr>\<rparr>\<rparr>) \<and>
   (forceRefresh \<or> \<not> isCacheValid nowCheck (indexItem storage) \<longrightarrow>
      fetchDCXIndex forceRefresh nowCheck nowStore (Ok indexData) storage =
        \<lparr>result = Inr indexData, sentRequest = True,
         storageAfter = storage\<lparr>indexItem :=
           Some \<lparr>data = indexData, timestamp = nowStore,
                 expiresAt = nowStore + 24 * 60 * 60 * 1000\<rparr>\<rparr>\<rparr>) \<and>
   (forceRefresh \<or> \<not> isCacheValid nowCheck (depthItem storage) \<longrightarrow>
      fetchMarketDepth forceRefresh nowCheck nowStore (Ok depthData) storage =
        \<lparr>result = Inr depthData, sentRequest = True,
         storageAfter = storage\<lparr>depthItem :=
           Some \<lparr>data = depthData, timestamp = nowStore,
                 expiresAt = nowStore + 24 * 60 * 60 * 1000\<rparr>\<rparr>\<rparr>)"
proof -
  have valid: "(isCacheValid now (Some entry) \<longleftrightarrow> now < expiresAt entry) \<and>
      \<not> isCacheValid now (None :: 'a CachedData option)"
    by (simp add: isCacheValid_def)
  have m1: "matrixItem storage = Some cachedMatrix \<and> nowCheck < expiresAt cachedMatrix \<longrightarrow>
      fetchPriceMatrix False nowCheck nowStore matrixResp storage =
        \<lparr>result = Inr (data cachedMatrix), sentRequest = False, storageAfter = storage\<rparr>"
    by (simp add: fetchPriceMatrix_def Let_def fetchCached_valid)
  have i1: "indexItem storage = Some cachedIndex \<and> nowCheck < expiresAt cachedIndex \<longrightarrow>
      fetchDCXIndex False nowCheck nowStore indexResp storage =
        \<lparr>result = Inr (data cachedIndex), sentRequest = False, storageAfter = storage\<rparr>"
    by (simp add: fetchDCXIndex_def Let_def fetchCached_valid)
  have d1: "depthItem storage = Some cachedDepth \<and> nowCheck < expiresAt cachedDepth \<longrightarrow>
      fetchMarketDepth False nowCheck nowStore depthResp storage =
        \<lparr>result = Inr (data cachedDepth), sentRequest = False, storageAfter = storage\<rparr>"
    by (simp add: fetchMarketDepth_def Let_def fetchCached_valid)
  have m2: "forceRefresh \<or> \<not> isCacheValid nowCheck (matrixItem storage) \<longrightarrow>
      fetchPriceMatrix forceRefresh nowCheck nowStore (Ok matrixData) storage =
        \<lparr>result = Inr matrixData, sentRequest = True,
         storageAfter = storage\<lparr>matrixItem :=
           Some \<lparr>data = matrixData, timestamp = nowStore,
                 expiresAt = nowStore + 24 * 60 * 60 * 1000\<rparr>\<rparr>\<rparr>"
    by (simp add: fetchPriceMatrix_def Let_def fetchCached_ok)
  have i2: "forceRefresh \<or> \<not> isCacheValid nowCheck (indexItem storage) \<longrightarrow>
      fetchDCXIndex forceRefresh nowCheck nowStore (Ok indexData) storage =
        \<lparr>result = Inr indexData, sentRequest = True,
         storageAfter = storage\<lparr>indexItem :=
           Some \<lparr>data = indexData, timestamp = nowStore,
                 expiresAt = nowStore + 24 * 60 * 60 * 1000\<rparr>\<rparr>\<rparr>"
    by (simp add: fetchDCXIndex_def Let_def fetchCached_ok)
  have d2: "forceRefresh \<or> \<not> isCacheValid nowCheck (depthItem storage) \<longrightarrow>
      fetchMarketDepth forceRefresh nowCheck nowStore (Ok depthData) storage =
        \<lparr>result = Inr depthData, sentRequest = True,
         storageAfter = storage\<lparr>depthItem :=
           Some \<lparr>data = depthData, timestamp = nowStore,
                 expiresAt = nowStore + 24 * 60 * 60 * 1000\<rparr>\<rparr>\<rparr>"
    by (simp add: fetchMarketDepth_def Let_def fetchCached_ok)
  show ?thesis using valid m1 i1 d1 m2 i2 d2 by blast
qed

theorem cache_serves_valid_and_stores_fresh_witness:
  "matrixItem expiredStorage =
     Some \<lparr>data = scenarioMatrix, timestamp = 0, expiresAt = 86400000\<rparr> \<and>
   (5 :: int) < 86400000 \<and>
   fetchPriceMatrix False 5 6 FetchRejected expiredStorage =
     \<lparr>result = Inr scenarioMatrix, sentRequest = False, storageAfter = expiredStorage\<rparr> \<and>
   \<not> isCacheValid 90000000 (indexItem expiredStorage) \<and>
   fetchDCXIndex False 90000000 90000001 (Ok (scenarioIndex\<lparr>dcx := 8100\<rparr>)) expiredStorage =
     \<lparr>result = Inr (scenarioIndex\<lparr>dcx := 8100\<rparr>), sentRequest = True,
      storageAfter = expiredStorage\<lparr>indexItem :=
        Some \<lparr>data = scenarioIndex\<lparr>dcx := 8100\<rparr>, timestamp = 90000001,
              expiresAt = 176400001\<rparr>\<rparr>\<rparr> \<and>
   fetchMarketDepth True 5 6 (Ok noDepth) expiredStorage =
     \<lparr>result = Inr noDepth, sentRequest = True,
      storageAfter = expiredStorage\<lparr>depthItem :=
        Some \<lparr>data = noDepth, timestamp = 6, expiresAt = 86400006\<rparr>\<rparr>\<rparr>"
  using
    cache_serves_valid_and_stores_fresh [where storage = expiredStorage
      and cachedMatrix = "\<lparr>data = scenarioMatrix, timestamp = 0, expiresAt = 86400000\<rparr>"
      and nowCheck = 5 and nowStore = 6 and matrixResp = FetchRejected
      and forceRefresh = True and depthData = noDepth]
    cache_serves_valid_and_stores_fresh [where storage = expiredStorage
      and nowCheck = 90000000 and nowStore = 90000001
      and forceRefresh = False and indexData = "scenarioIndex\<lparr>dcx := 8100\<rparr>"]
  by (simp add: expiredStorage_def isCacheValid_def)


end
